theory Spec2Isabelle
  imports Main "HOL-Library.Word"
begin

section \<open>The remembered set of src/heap/remembered-set.h\<close>

text \<open>
  The header defines the class template \<open>RememberedSet<direction>\<close> and the class
  \<open>UpdateTypedSlotHelper\<close>. The template parameter becomes an ordinary first argument
  \<open>direction\<close>. Every function that mutates a chunk takes the chunk and returns the new
  one. The model is the checked build: a failing \<open>DCHECK\<close> or \<open>STATIC_ASSERT\<close> and
  the \<open>UNREACHABLE()\<close> of the source are results \<open>Inl e\<close>; reading an array element
  that does not exist or dereferencing \<open>nullptr\<close> (undefined behaviour of C++) are
  \<open>Inl OutOfBounds\<close> and \<open>Inl NullDeref\<close>.
\<close>

subsection \<open>Basic types\<close>

text \<open>\<open>Address\<close> is \<open>byte*\<close>; its differences are \<open>uintptr_t\<close>, here of 64 bits.\<close>

type_synonym Address = "64 word"

text \<open>An \<open>Object*\<close>, a tagged pointer.\<close>

type_synonym Object = "64 word"

datatype PointerDirection = OLD_TO_OLD | OLD_TO_NEW

datatype SlotCallbackResult = KEEP_SLOT | REMOVE_SLOT

datatype SlotType =
    EMBEDDED_OBJECT_SLOT
  | OBJECT_SLOT
  | CELL_TARGET_SLOT
  | CODE_TARGET_SLOT
  | CODE_ENTRY_SLOT
  | DEBUG_TARGET_SLOT
  | NUMBER_OF_SLOT_TYPES

datatype error = DcheckFailed | StaticAssertFailed | Unreachable | OutOfBounds | NullDeref

subsection \<open>SlotSet (src/heap/slot-set.h is not part of the sources)\<close>

text \<open>
  Modelled from the spec: class \<open>SlotSet\<close>, the slot table of one page unit: "per-page-unit
  existence-only structure (present/absent, no multiplicity)". It holds the address of its
  page unit and the recorded intra-page byte offsets, kept without duplicates in ascending
  order, which is the order in which \<open>Iterate\<close> visits them.
\<close>

record SlotSet =
  page_start :: Address
  offsets :: "nat list"

text \<open>Modelled from the spec: \<open>SlotSet::Insert\<close>, "insert is idempotent".\<close>

definition SlotSet_Insert :: "SlotSet \<Rightarrow> nat \<Rightarrow> SlotSet" where
  "SlotSet_Insert s slot_offset =
     (if slot_offset \<in> set (offsets s) then s
      else s\<lparr>offsets := insort slot_offset (offsets s)\<rparr>)"

text \<open>Modelled from the spec: \<open>SlotSet::Remove\<close>, "no-op if absent".\<close>

definition SlotSet_Remove :: "SlotSet \<Rightarrow> nat \<Rightarrow> SlotSet" where
  "SlotSet_Remove s slot_offset =
     s\<lparr>offsets := filter (\<lambda>x. x \<noteq> slot_offset) (offsets s)\<rparr>"

text \<open>
  Modelled from the spec: \<open>SlotSet::RemoveRange\<close>, "removes every contained offset in the
  half-open range".
\<close>

definition SlotSet_RemoveRange :: "SlotSet \<Rightarrow> nat \<Rightarrow> nat \<Rightarrow> SlotSet" where
  "SlotSet_RemoveRange s start_offset end_offset =
     s\<lparr>offsets := filter (\<lambda>x. \<not> (start_offset \<le> x \<and> x < end_offset)) (offsets s)\<rparr>"

text \<open>
  Modelled from the spec: the loop of \<open>SlotSet::Iterate\<close>: "visits every present offset
  exactly once, invokes policy(address); REMOVE verdicts clear the entry in the same pass".
  The callback may have effects: it takes and returns a state \<open>'w\<close>.
\<close>

fun SlotSet_IterateOffsets ::
  "Address \<Rightarrow> nat list \<Rightarrow> (Address \<Rightarrow> 'w \<Rightarrow> SlotCallbackResult \<times> 'w) \<Rightarrow> 'w \<Rightarrow> nat list \<times> 'w"
where
  "SlotSet_IterateOffsets ps [] callback w = ([], w)"
| "SlotSet_IterateOffsets ps (x # xs) callback w =
     (case callback (ps + of_nat x) w of
        (KEEP_SLOT, w1) \<Rightarrow>
          (case SlotSet_IterateOffsets ps xs callback w1 of (ys, w2) \<Rightarrow> (x # ys, w2))
      | (REMOVE_SLOT, w1) \<Rightarrow> SlotSet_IterateOffsets ps xs callback w1)"

text \<open>
  Modelled from the spec: \<open>SlotSet::Iterate\<close>, which "returns count still present". The
  result is the count, the filtered slot set and the state after the callbacks.
\<close>

definition SlotSet_Iterate ::
  "SlotSet \<Rightarrow> (Address \<Rightarrow> 'w \<Rightarrow> SlotCallbackResult \<times> 'w) \<Rightarrow> 'w \<Rightarrow> int \<times> SlotSet \<times> 'w"
where
  "SlotSet_Iterate s callback w =
     (case SlotSet_IterateOffsets (page_start s) (offsets s) callback w of
        (ys, w') \<Rightarrow> (int (length ys), s\<lparr>offsets := ys\<rparr>, w'))"

subsection \<open>TypedSlotSet (src/heap/slot-set.h is not part of the sources)\<close>

text \<open>
  Modelled from the spec: class \<open>TypedSlotSet\<close>, an "ordered collection of (kind,
  host-offset, slot-offset) triples", "not deduplicated, processed in insertion order". The
  offsets are the \<open>uint32_t\<close> values that \<open>InsertTyped\<close> passes.
\<close>

record TypedSlotSet =
  typed_page_start :: Address
  typed_entries :: "(SlotType \<times> 32 word \<times> 32 word) list"

text \<open>Modelled from the spec: \<open>TypedSlotSet::Insert\<close>, "appends to the entry list".\<close>

definition TypedSlotSet_Insert :: "TypedSlotSet \<Rightarrow> SlotType \<Rightarrow> 32 word \<Rightarrow> 32 word \<Rightarrow> TypedSlotSet" where
  "TypedSlotSet_Insert s slot_type host_offset offset =
     s\<lparr>typed_entries := typed_entries s @ [(slot_type, host_offset, offset)]\<rparr>"

text \<open>
  Modelled from the spec: the loop of \<open>TypedSlotSet::Iterate\<close>: "invokes policy(kind,
  host-derived address, slot-derived address) per entry in insertion order; REMOVE drops
  the entry".
\<close>

fun TypedSlotSet_IterateEntries ::
  "Address \<Rightarrow> (SlotType \<times> 32 word \<times> 32 word) list \<Rightarrow>
   (SlotType \<Rightarrow> Address \<Rightarrow> Address \<Rightarrow> 'w \<Rightarrow> SlotCallbackResult \<times> 'w) \<Rightarrow> 'w \<Rightarrow>
   (SlotType \<times> 32 word \<times> 32 word) list \<times> 'w"
where
  "TypedSlotSet_IterateEntries ps [] callback w = ([], w)"
| "TypedSlotSet_IterateEntries ps ((slot_type, host_offset, offset) # xs) callback w =
     (case callback slot_type (ps + ucast host_offset) (ps + ucast offset) w of
        (KEEP_SLOT, w1) \<Rightarrow>
          (case TypedSlotSet_IterateEntries ps xs callback w1 of
             (ys, w2) \<Rightarrow> ((slot_type, host_offset, offset) # ys, w2))
      | (REMOVE_SLOT, w1) \<Rightarrow> TypedSlotSet_IterateEntries ps xs callback w1)"

text \<open>Modelled from the spec: \<open>TypedSlotSet::Iterate\<close>, "mirrors SlotTable's draining semantics".\<close>

definition TypedSlotSet_Iterate ::
  "TypedSlotSet \<Rightarrow> (SlotType \<Rightarrow> Address \<Rightarrow> Address \<Rightarrow> 'w \<Rightarrow> SlotCallbackResult \<times> 'w) \<Rightarrow> 'w \<Rightarrow>
   int \<times> TypedSlotSet \<times> 'w"
where
  "TypedSlotSet_Iterate s callback w =
     (case TypedSlotSet_IterateEntries (typed_page_start s) (typed_entries s) callback w of
        (ys, w') \<Rightarrow> (int (length ys), s\<lparr>typed_entries := ys\<rparr>, w'))"

subsection \<open>MemoryChunk and Page (src/heap/spaces.h is not part of the sources)\<close>

text \<open>
  Modelled from the spec: class \<open>MemoryChunk\<close> (a \<open>Page\<close> is one): a "contiguous region
  subdivided into fixed-size page units" that "owns at most one SlotTable and one
  TypedSlotTable per direction" and "exposes get/allocate/release per direction, base
  address, size, containment test". A table pointer that is \<open>nullptr\<close> is \<open>None\<close>; the
  \<open>SlotSet*\<close> points to an array with one \<open>SlotSet\<close> per page unit. The result of
  \<open>size()\<close> is the field \<open>chunk_size\<close>, a \<open>size_t\<close>.
\<close>

record MemoryChunk =
  address :: Address
  chunk_size :: "64 word"
  old_to_new_slots :: "SlotSet list option"
  old_to_old_slots :: "SlotSet list option"
  typed_old_to_new_slots :: "TypedSlotSet option"
  typed_old_to_old_slots :: "TypedSlotSet option"

text \<open>Modelled from the spec: \<open>MemoryChunk::Contains\<close>, the "containment test".\<close>

definition Contains :: "MemoryChunk \<Rightarrow> Address \<Rightarrow> bool" where
  "Contains chunk addr \<longleftrightarrow>
     address chunk \<le> addr \<and> unat addr < unat (address chunk) + unat (chunk_size chunk)"

text \<open>
  Modelled from the spec: the array that \<open>MemoryChunk::AllocateOldToOldSlots\<close> and
  \<open>AllocateOldToNewSlots\<close> create: one empty \<open>SlotSet\<close> for each page unit of the chunk.
  \<open>Page::kPageSize\<close> is missing with spaces.h and is the parameter \<open>kPageSize\<close>; the
  number of page units is computed as \<open>RememberedSet::Iterate\<close> computes it.
\<close>

definition NewSlotSetArray :: "64 word \<Rightarrow> 64 word \<Rightarrow> Address \<Rightarrow> SlotSet list" where
  "NewSlotSetArray kPageSize sz page_start_addr =
     map (\<lambda>i. \<lparr>page_start = page_start_addr + of_nat i * kPageSize, offsets = []\<rparr>)
       [0 ..< unat ((sz + kPageSize - 1) div kPageSize)]"

text \<open>Modelled from the spec: the chunk's "allocate" and "release" of each table.\<close>

definition AllocateOldToOldSlots :: "64 word \<Rightarrow> MemoryChunk \<Rightarrow> MemoryChunk" where
  "AllocateOldToOldSlots kPageSize chunk =
     chunk\<lparr>old_to_old_slots := Some (NewSlotSetArray kPageSize (chunk_size chunk) (address chunk))\<rparr>"

definition AllocateOldToNewSlots :: "64 word \<Rightarrow> MemoryChunk \<Rightarrow> MemoryChunk" where
  "AllocateOldToNewSlots kPageSize chunk =
     chunk\<lparr>old_to_new_slots := Some (NewSlotSetArray kPageSize (chunk_size chunk) (address chunk))\<rparr>"

definition ReleaseOldToOldSlots :: "MemoryChunk \<Rightarrow> MemoryChunk" where
  "ReleaseOldToOldSlots chunk = chunk\<lparr>old_to_old_slots := None\<rparr>"

definition ReleaseOldToNewSlots :: "MemoryChunk \<Rightarrow> MemoryChunk" where
  "ReleaseOldToNewSlots chunk = chunk\<lparr>old_to_new_slots := None\<rparr>"

definition AllocateTypedOldToOldSlots :: "MemoryChunk \<Rightarrow> MemoryChunk" where
  "AllocateTypedOldToOldSlots chunk =
     chunk\<lparr>typed_old_to_old_slots :=
       Some \<lparr>typed_page_start = address chunk, typed_entries = []\<rparr>\<rparr>"

definition AllocateTypedOldToNewSlots :: "MemoryChunk \<Rightarrow> MemoryChunk" where
  "AllocateTypedOldToNewSlots chunk =
     chunk\<lparr>typed_old_to_new_slots :=
       Some \<lparr>typed_page_start = address chunk, typed_entries = []\<rparr>\<rparr>"

definition ReleaseTypedOldToOldSlots :: "MemoryChunk \<Rightarrow> MemoryChunk" where
  "ReleaseTypedOldToOldSlots chunk = chunk\<lparr>typed_old_to_old_slots := None\<rparr>"

definition ReleaseTypedOldToNewSlots :: "MemoryChunk \<Rightarrow> MemoryChunk" where
  "ReleaseTypedOldToNewSlots chunk = chunk\<lparr>typed_old_to_new_slots := None\<rparr>"

subsection \<open>RememberedSet: the private accessors (lines 177-227)\<close>

definition GetSlotSet :: "PointerDirection \<Rightarrow> MemoryChunk \<Rightarrow> SlotSet list option" where
  "GetSlotSet direction chunk =
     (if direction = OLD_TO_OLD then old_to_old_slots chunk else old_to_new_slots chunk)"

definition GetTypedSlotSet :: "PointerDirection \<Rightarrow> MemoryChunk \<Rightarrow> TypedSlotSet option" where
  "GetTypedSlotSet direction chunk =
     (if direction = OLD_TO_OLD then typed_old_to_old_slots chunk
      else typed_old_to_new_slots chunk)"

definition ReleaseSlotSet :: "PointerDirection \<Rightarrow> MemoryChunk \<Rightarrow> MemoryChunk" where
  "ReleaseSlotSet direction chunk =
     (if direction = OLD_TO_OLD then ReleaseOldToOldSlots chunk
      else ReleaseOldToNewSlots chunk)"

definition ReleaseTypedSlotSet :: "PointerDirection \<Rightarrow> MemoryChunk \<Rightarrow> MemoryChunk" where
  "ReleaseTypedSlotSet direction chunk =
     (if direction = OLD_TO_OLD then ReleaseTypedOldToOldSlots chunk
      else ReleaseTypedOldToNewSlots chunk)"

text \<open>The source returns the new table pointer; the model returns the chunk with it.\<close>

definition AllocateSlotSet ::
  "64 word \<Rightarrow> PointerDirection \<Rightarrow> MemoryChunk \<Rightarrow> MemoryChunk \<times> SlotSet list option" where
  "AllocateSlotSet kPageSize direction chunk =
     (if direction = OLD_TO_OLD
      then (let chunk' = AllocateOldToOldSlots kPageSize chunk
            in (chunk', old_to_old_slots chunk'))
      else (let chunk' = AllocateOldToNewSlots kPageSize chunk
            in (chunk', old_to_new_slots chunk')))"

definition AllocateTypedSlotSet ::
  "PointerDirection \<Rightarrow> MemoryChunk \<Rightarrow> MemoryChunk \<times> TypedSlotSet option" where
  "AllocateTypedSlotSet direction chunk =
     (if direction = OLD_TO_OLD
      then (let chunk' = AllocateTypedOldToOldSlots chunk
            in (chunk', typed_old_to_old_slots chunk'))
      else (let chunk' = AllocateTypedOldToNewSlots chunk
            in (chunk', typed_old_to_new_slots chunk')))"

text \<open>
  The source mutates the table through the pointer it got from \<open>GetSlotSet\<close>, which
  aliases the chunk's field. In the model the changed table is stored back into the field
  of the same direction.
\<close>

definition StoreSlotSet :: "PointerDirection \<Rightarrow> MemoryChunk \<Rightarrow> SlotSet list \<Rightarrow> MemoryChunk" where
  "StoreSlotSet direction chunk slot_set =
     (if direction = OLD_TO_OLD then chunk\<lparr>old_to_old_slots := Some slot_set\<rparr>
      else chunk\<lparr>old_to_new_slots := Some slot_set\<rparr>)"

definition StoreTypedSlotSet :: "PointerDirection \<Rightarrow> MemoryChunk \<Rightarrow> TypedSlotSet \<Rightarrow> MemoryChunk" where
  "StoreTypedSlotSet direction chunk slot_set =
     (if direction = OLD_TO_OLD then chunk\<lparr>typed_old_to_old_slots := Some slot_set\<rparr>
      else chunk\<lparr>typed_old_to_new_slots := Some slot_set\<rparr>)"

subsection \<open>RememberedSet: the public operations\<close>

text \<open>\<open>RememberedSet::Insert\<close> (lines 24-32).\<close>

definition Insert ::
  "64 word \<Rightarrow> PointerDirection \<Rightarrow> MemoryChunk \<Rightarrow> Address \<Rightarrow> error + MemoryChunk" where
  "Insert kPageSize direction page slot_addr =
     (if \<not> Contains page slot_addr then Inl DcheckFailed
      else
        let (page', slot_set) =
              (case GetSlotSet direction page of
                 None \<Rightarrow> AllocateSlotSet kPageSize direction page
               | Some s \<Rightarrow> (page, Some s))
        in case slot_set of
             None \<Rightarrow> Inl NullDeref
           | Some slots \<Rightarrow>
               let offset = slot_addr - address page';
                   i = unat (offset div kPageSize)
               in if i < length slots
                  then Inr (StoreSlotSet direction page'
                         (slots[i := SlotSet_Insert (slots ! i) (unat (offset mod kPageSize))]))
                  else Inl OutOfBounds)"

text \<open>\<open>RememberedSet::Remove\<close> (lines 37-44).\<close>

definition Remove ::
  "64 word \<Rightarrow> PointerDirection \<Rightarrow> MemoryChunk \<Rightarrow> Address \<Rightarrow> error + MemoryChunk" where
  "Remove kPageSize direction page slot_addr =
     (if \<not> Contains page slot_addr then Inl DcheckFailed
      else
        case GetSlotSet direction page of
          None \<Rightarrow> Inr page
        | Some slots \<Rightarrow>
            let offset = slot_addr - address page;
                i = unat (offset div kPageSize)
            in if i < length slots
               then Inr (StoreSlotSet direction page
                      (slots[i := SlotSet_Remove (slots ! i) (unat (offset mod kPageSize))]))
               else Inl OutOfBounds)"

text \<open>
  \<open>RememberedSet::RemoveRange\<close> (lines 48-58). \<open>slot_set->RemoveRange\<close> is applied to the
  first element of the array only; the two offsets are cast to \<open>uint32_t\<close>.
\<close>

definition RemoveRange ::
  "64 word \<Rightarrow> PointerDirection \<Rightarrow> MemoryChunk \<Rightarrow> Address \<Rightarrow> Address \<Rightarrow> error + MemoryChunk" where
  "RemoveRange kPageSize direction page start end =
     (case GetSlotSet direction page of
        None \<Rightarrow> Inr page
      | Some slots \<Rightarrow>
          let start_offset = start - address page;
              end_offset = end - address page
          in if \<not> start_offset < end_offset then Inl DcheckFailed
             else if \<not> end_offset \<le> kPageSize then Inl DcheckFailed
             else (case slots of
                     [] \<Rightarrow> Inl OutOfBounds
                   | s0 # rest \<Rightarrow>
                       Inr (StoreSlotSet direction page
                         (SlotSet_RemoveRange s0
                            (unat (ucast start_offset :: 32 word))
                            (unat (ucast end_offset :: 32 word)) # rest))))"

text \<open>
  The loop of the per-chunk \<open>RememberedSet::Iterate\<close> (lines 92-94):
  \<open>for (size_t page = 0; page < pages; page++) new_count += slots[page].Iterate(callback)\<close>.
  The counter \<open>new_count\<close> is an \<open>int\<close> of the source; a chunk holds far fewer than
  \<open>2^31\<close> slots, so the sum is taken in the integers.
\<close>

function IteratePages ::
  "SlotSet list \<Rightarrow> nat \<Rightarrow> nat \<Rightarrow> (Address \<Rightarrow> 'w \<Rightarrow> SlotCallbackResult \<times> 'w) \<Rightarrow> int \<Rightarrow> 'w \<Rightarrow>
   error + SlotSet list \<times> int \<times> 'w"
where
  "IteratePages slots pages page callback new_count w =
     (if page < pages
      then (if page < length slots
            then (case SlotSet_Iterate (slots ! page) callback w of
                    (n, s', w') \<Rightarrow>
                      IteratePages (slots[page := s']) pages (Suc page) callback (new_count + n) w')
            else Inl OutOfBounds)
      else Inr (slots, new_count, w))"
  by pat_completeness auto
termination
  by (relation "measure (\<lambda>(slots, pages, page, callback, new_count, w). pages - page)") auto

text \<open>\<open>RememberedSet::Iterate(MemoryChunk*, Callback)\<close> (lines 87-99).\<close>

definition Iterate ::
  "64 word \<Rightarrow> PointerDirection \<Rightarrow> MemoryChunk \<Rightarrow> (Address \<Rightarrow> 'w \<Rightarrow> SlotCallbackResult \<times> 'w) \<Rightarrow> 'w \<Rightarrow>
   error + MemoryChunk \<times> 'w"
where
  "Iterate kPageSize direction chunk callback w =
     (case GetSlotSet direction chunk of
        None \<Rightarrow> Inr (chunk, w)
      | Some slots \<Rightarrow>
          let pages = unat ((chunk_size chunk + kPageSize - 1) div kPageSize)
          in (case IteratePages slots pages 0 callback 0 w of
                Inl e \<Rightarrow> Inl e
              | Inr (slots', new_count, w') \<Rightarrow>
                  (if new_count = 0 then Inr (ReleaseSlotSet direction chunk, w')
                   else Inr (StoreSlotSet direction chunk slots', w'))))"

text \<open>
  \<open>RememberedSet::IterateMemoryChunks\<close> (lines 71-81). The heap is the sequence of chunks
  that \<open>MemoryChunkIterator\<close> produces. The callback gets the chunk and may change it;
  when a callback fails (as the per-chunk \<open>Iterate\<close> can, see above), the failure ends the
  iteration.
\<close>

fun IterateMemoryChunks ::
  "PointerDirection \<Rightarrow> MemoryChunk list \<Rightarrow> (MemoryChunk \<Rightarrow> 'w \<Rightarrow> error + MemoryChunk \<times> 'w) \<Rightarrow> 'w \<Rightarrow>
   error + MemoryChunk list \<times> 'w"
where
  "IterateMemoryChunks direction [] callback w = Inr ([], w)"
| "IterateMemoryChunks direction (chunk # rest) callback w =
     (let slots = GetSlotSet direction chunk;
          typed_slots = GetTypedSlotSet direction chunk
      in if slots \<noteq> None \<or> typed_slots \<noteq> None
         then (case callback chunk w of
                 Inl e \<Rightarrow> Inl e
               | Inr (chunk', w1) \<Rightarrow>
                   (case IterateMemoryChunks direction rest callback w1 of
                      Inl e \<Rightarrow> Inl e
                    | Inr (rest', w2) \<Rightarrow> Inr (chunk' # rest', w2)))
         else (case IterateMemoryChunks direction rest callback w of
                 Inl e \<Rightarrow> Inl e
               | Inr (rest', w2) \<Rightarrow> Inr (chunk # rest', w2)))"

text \<open>\<open>RememberedSet::Iterate(Heap*, Callback)\<close> (lines 63-66).\<close>

definition IterateHeap ::
  "64 word \<Rightarrow> PointerDirection \<Rightarrow> MemoryChunk list \<Rightarrow> (Address \<Rightarrow> 'w \<Rightarrow> SlotCallbackResult \<times> 'w) \<Rightarrow> 'w \<Rightarrow>
   error + MemoryChunk list \<times> 'w"
where
  "IterateHeap kPageSize direction heap callback w =
     IterateMemoryChunks direction heap
       (\<lambda>chunk. Iterate kPageSize direction chunk callback) w"

text \<open>\<open>RememberedSet::InsertTyped\<close> (lines 103-119). \<open>nullptr\<close> is the address 0.\<close>

definition InsertTyped ::
  "int \<Rightarrow> PointerDirection \<Rightarrow> MemoryChunk \<Rightarrow> Address \<Rightarrow> SlotType \<Rightarrow> Address \<Rightarrow> error + MemoryChunk"
where
  "InsertTyped kMaxOffset direction page host_addr slot_type slot_addr =
     (let (page', slot_set) =
            (case GetTypedSlotSet direction page of
               None \<Rightarrow> (let page1 = fst (AllocateTypedSlotSet direction page)
                        in (page1, GetTypedSlotSet direction page1))
             | Some s \<Rightarrow> (page, Some s));
          host_addr' = (if host_addr = 0 then address page' else host_addr);
          offset = slot_addr - address page';
          host_offset = host_addr' - address page'
      in if \<not> offset < word_of_int kMaxOffset then Inl DcheckFailed
         else if \<not> host_offset < word_of_int kMaxOffset then Inl DcheckFailed
         else (case slot_set of
                 None \<Rightarrow> Inl NullDeref
               | Some s \<Rightarrow>
                   Inr (StoreTypedSlotSet direction page'
                     (TypedSlotSet_Insert s slot_type (ucast host_offset) (ucast offset)))))"

text \<open>
  \<open>RememberedSet::RemoveRangeTyped\<close> (lines 123-131). The lambda has no effects, so the
  state of the iteration is \<open>unit\<close>; the count that \<open>slots->Iterate\<close> returns is dropped.
\<close>

definition RemoveRangeTyped ::
  "PointerDirection \<Rightarrow> MemoryChunk \<Rightarrow> Address \<Rightarrow> Address \<Rightarrow> MemoryChunk" where
  "RemoveRangeTyped direction page start end =
     (case GetTypedSlotSet direction page of
        None \<Rightarrow> page
      | Some slots \<Rightarrow>
          (case TypedSlotSet_Iterate slots
                  (\<lambda>slot_type host_addr slot_addr u.
                     (if start \<le> slot_addr \<and> slot_addr < end then REMOVE_SLOT else KEEP_SLOT, u))
                  ()
           of (new_count, slots', u) \<Rightarrow> StoreTypedSlotSet direction page slots'))"

text \<open>\<open>RememberedSet::IterateTyped(MemoryChunk*, Callback)\<close> (lines 147-155).\<close>

definition IterateTyped ::
  "PointerDirection \<Rightarrow> MemoryChunk \<Rightarrow>
   (SlotType \<Rightarrow> Address \<Rightarrow> Address \<Rightarrow> 'w \<Rightarrow> SlotCallbackResult \<times> 'w) \<Rightarrow> 'w \<Rightarrow> MemoryChunk \<times> 'w"
where
  "IterateTyped direction chunk callback w =
     (case GetTypedSlotSet direction chunk of
        None \<Rightarrow> (chunk, w)
      | Some slots \<Rightarrow>
          (case TypedSlotSet_Iterate slots callback w of
             (new_count, slots', w') \<Rightarrow>
               if new_count = 0 then (ReleaseTypedSlotSet direction chunk, w')
               else (StoreTypedSlotSet direction chunk slots', w')))"

text \<open>\<open>RememberedSet::IterateTyped(Heap*, Callback)\<close> (lines 137-141).\<close>

definition IterateTypedHeap ::
  "PointerDirection \<Rightarrow> MemoryChunk list \<Rightarrow>
   (SlotType \<Rightarrow> Address \<Rightarrow> Address \<Rightarrow> 'w \<Rightarrow> SlotCallbackResult \<times> 'w) \<Rightarrow> 'w \<Rightarrow>
   error + MemoryChunk list \<times> 'w"
where
  "IterateTypedHeap direction heap callback w =
     IterateMemoryChunks direction heap
       (\<lambda>chunk w0. Inr (IterateTyped direction chunk callback w0)) w"

text \<open>
  \<open>RememberedSet::ClearAll\<close> (lines 158-166). The \<open>STATIC_ASSERT\<close> rejects the
  instantiation for the other direction when the program is compiled.
\<close>

definition ClearAll :: "PointerDirection \<Rightarrow> MemoryChunk list \<Rightarrow> error + MemoryChunk list" where
  "ClearAll direction heap =
     (if \<not> direction = OLD_TO_OLD then Inl StaticAssertFailed
      else Inr (map (\<lambda>chunk. ReleaseTypedOldToOldSlots (ReleaseOldToOldSlots chunk)) heap))"

subsection \<open>UpdateTypedSlotHelper (lines 232-346)\<close>

text \<open>
  \<open>RelocInfo\<close>, \<open>Code\<close> and \<open>Memory\<close> come from src/assembler.h and src/objects.h, which
  are not part of the sources. Of a \<open>RelocInfo\<close> the model keeps the two constructor
  arguments that matter, the address and the mode; of the modes, those this header names.
\<close>

datatype Mode = CODE_TARGET | CELL | DEBUG_BREAK_SLOT_AT_POSITION | EMBEDDED_OBJECT | OTHER_MODE nat

record RelocInfo =
  pc :: Address
  rmode :: Mode

text \<open>
  The decode and encode primitives of the missing headers are parameters: a record of
  functions over the state \<open>'w\<close> that holds the instruction sequences and the heap words.
  Each field has the name of the function of the source it stands for.
  \<open>Memory_Address_at_put a v\<close> is the assignment \<open>Memory::Address_at(a) = v\<close>;
  \<open>Object_at\<close> and \<open>Object_at_put\<close> read and write the heap word of a plain object slot.
\<close>

record 'w Externals =
  IsCodeTarget :: "Mode \<Rightarrow> bool"
  IsDebugBreakSlot :: "Mode \<Rightarrow> bool"
  IsPatchedDebugBreakSlotSequence :: "RelocInfo \<Rightarrow> 'w \<Rightarrow> bool"
  target_cell :: "RelocInfo \<Rightarrow> 'w \<Rightarrow> Object"
  set_target_cell :: "RelocInfo \<Rightarrow> Object \<Rightarrow> 'w \<Rightarrow> 'w"
  target_address :: "RelocInfo \<Rightarrow> 'w \<Rightarrow> Address"
  set_target_address :: "RelocInfo \<Rightarrow> Address \<Rightarrow> 'w \<Rightarrow> 'w"
  target_object :: "RelocInfo \<Rightarrow> 'w \<Rightarrow> Object"
  set_target_object :: "RelocInfo \<Rightarrow> Object \<Rightarrow> 'w \<Rightarrow> 'w"
  debug_call_address :: "RelocInfo \<Rightarrow> 'w \<Rightarrow> Address"
  set_debug_call_address :: "RelocInfo \<Rightarrow> Address \<Rightarrow> 'w \<Rightarrow> 'w"
  GetCodeFromTargetAddress :: "Address \<Rightarrow> Object"
  GetObjectFromEntryAddress :: "Address \<Rightarrow> 'w \<Rightarrow> Object"
  instruction_start :: "Object \<Rightarrow> Address"
  entry :: "Object \<Rightarrow> Address"
  Memory_Address_at_put :: "Address \<Rightarrow> Address \<Rightarrow> 'w \<Rightarrow> 'w"
  Object_at :: "Address \<Rightarrow> 'w \<Rightarrow> Object"
  Object_at_put :: "Address \<Rightarrow> Object \<Rightarrow> 'w \<Rightarrow> 'w"

text \<open>
  The callback of the source takes an \<open>Object**\<close>, may overwrite the pointer behind it and
  returns a verdict. In the model it takes the pointer's value and the state, and returns
  the verdict, the pointer's new value and the new state.
\<close>

type_synonym 'w SlotCallback = "Object \<Rightarrow> 'w \<Rightarrow> (SlotCallbackResult \<times> Object) \<times> 'w"

text \<open>\<open>UpdateCell\<close> (lines 237-246).\<close>

definition UpdateCell ::
  "'w Externals \<Rightarrow> RelocInfo \<Rightarrow> 'w SlotCallback \<Rightarrow> 'w \<Rightarrow> error + SlotCallbackResult \<times> 'w" where
  "UpdateCell X rinfo callback w =
     (if \<not> rmode rinfo = CELL then Inl DcheckFailed
      else
        let cell = target_cell X rinfo w;
            old_cell = cell
        in case callback cell w of
             ((result, cell'), w1) \<Rightarrow>
               Inr (result, if cell' \<noteq> old_cell then set_target_cell X rinfo cell' w1 else w1))"

text \<open>\<open>UpdateCodeEntry\<close> (lines 251-261).\<close>

definition UpdateCodeEntry ::
  "'w Externals \<Rightarrow> Address \<Rightarrow> 'w SlotCallback \<Rightarrow> 'w \<Rightarrow> error + SlotCallbackResult \<times> 'w" where
  "UpdateCodeEntry X entry_address callback w =
     (let code = GetObjectFromEntryAddress X entry_address w;
          old_code = code
      in case callback code w of
           ((result, code'), w1) \<Rightarrow>
             Inr (result,
               if code' \<noteq> old_code then Memory_Address_at_put X entry_address (entry X code') w1
               else w1))"

text \<open>\<open>UpdateCodeTarget\<close> (lines 266-276).\<close>

definition UpdateCodeTarget ::
  "'w Externals \<Rightarrow> RelocInfo \<Rightarrow> 'w SlotCallback \<Rightarrow> 'w \<Rightarrow> error + SlotCallbackResult \<times> 'w" where
  "UpdateCodeTarget X rinfo callback w =
     (if \<not> IsCodeTarget X (rmode rinfo) then Inl DcheckFailed
      else
        let target = GetCodeFromTargetAddress X (target_address X rinfo w);
            old_target = target
        in case callback target w of
             ((result, target'), w1) \<Rightarrow>
               Inr (result,
                 if target' \<noteq> old_target
                 then set_target_address X rinfo (instruction_start X target') w1
                 else w1))"

text \<open>\<open>UpdateEmbeddedPointer\<close> (lines 281-291).\<close>

definition UpdateEmbeddedPointer ::
  "'w Externals \<Rightarrow> RelocInfo \<Rightarrow> 'w SlotCallback \<Rightarrow> 'w \<Rightarrow> error + SlotCallbackResult \<times> 'w" where
  "UpdateEmbeddedPointer X rinfo callback w =
     (if \<not> rmode rinfo = EMBEDDED_OBJECT then Inl DcheckFailed
      else
        let target = target_object X rinfo w;
            old_target = target
        in case callback target w of
             ((result, target'), w1) \<Rightarrow>
               Inr (result,
                 if target' \<noteq> old_target then set_target_object X rinfo target' w1 else w1))"

text \<open>\<open>UpdateDebugTarget\<close> (lines 296-305): no comparison with the old target.\<close>

definition UpdateDebugTarget ::
  "'w Externals \<Rightarrow> RelocInfo \<Rightarrow> 'w SlotCallback \<Rightarrow> 'w \<Rightarrow> error + SlotCallbackResult \<times> 'w" where
  "UpdateDebugTarget X rinfo callback w =
     (if \<not> (IsDebugBreakSlot X (rmode rinfo) \<and> IsPatchedDebugBreakSlotSequence X rinfo w)
      then Inl DcheckFailed
      else
        let target = GetCodeFromTargetAddress X (debug_call_address X rinfo w)
        in case callback target w of
             ((result, target'), w1) \<Rightarrow>
               Inr (result, set_debug_call_address X rinfo (instruction_start X target') w1))"

text \<open>
  \<open>UpdateTypedSlot\<close> (lines 310-345). For \<open>OBJECT_SLOT\<close> the callback works on the heap
  word at \<open>addr\<close> itself: the model reads the word, runs the callback and stores the
  pointer the callback leaves there.
\<close>

definition UpdateTypedSlot ::
  "'w Externals \<Rightarrow> SlotType \<Rightarrow> Address \<Rightarrow> 'w SlotCallback \<Rightarrow> 'w \<Rightarrow> error + SlotCallbackResult \<times> 'w"
where
  "UpdateTypedSlot X slot_type addr callback w =
     (case slot_type of
        CODE_TARGET_SLOT \<Rightarrow>
          UpdateCodeTarget X \<lparr>pc = addr, rmode = CODE_TARGET\<rparr> callback w
      | CELL_TARGET_SLOT \<Rightarrow>
          UpdateCell X \<lparr>pc = addr, rmode = CELL\<rparr> callback w
      | CODE_ENTRY_SLOT \<Rightarrow>
          UpdateCodeEntry X addr callback w
      | DEBUG_TARGET_SLOT \<Rightarrow>
          (let rinfo = \<lparr>pc = addr, rmode = DEBUG_BREAK_SLOT_AT_POSITION\<rparr>
           in if IsPatchedDebugBreakSlotSequence X rinfo w
              then UpdateDebugTarget X rinfo callback w
              else Inr (REMOVE_SLOT, w))
      | EMBEDDED_OBJECT_SLOT \<Rightarrow>
          UpdateEmbeddedPointer X \<lparr>pc = addr, rmode = EMBEDDED_OBJECT\<rparr> callback w
      | OBJECT_SLOT \<Rightarrow>
          (case callback (Object_at X addr w) w of
             ((result, obj'), w1) \<Rightarrow> Inr (result, Object_at_put X addr obj' w1))
      | NUMBER_OF_SLOT_TYPES \<Rightarrow> Inl Unreachable)"

section \<open>Notions used in the statements\<close>

text \<open>
  The spec's words for the loop of the per-chunk \<open>Iterate\<close>: it "sums retained counts
  across all page units". \<open>IterateAllPages_spec\<close> passes over the slot sets of the page
  units in order, filters each with \<open>SlotSet::Iterate\<close> and adds up the counts; the loop
  \<open>IteratePages\<close> of the source, which indexes the array, is compared with it below.
\<close>

fun IterateAllPages_spec ::
  "SlotSet list \<Rightarrow> (Address \<Rightarrow> 'w \<Rightarrow> SlotCallbackResult \<times> 'w) \<Rightarrow> 'w \<Rightarrow> SlotSet list \<times> int \<times> 'w"
where
  "IterateAllPages_spec [] callback w = ([], 0, w)"
| "IterateAllPages_spec (s # ss) callback w =
     (case SlotSet_Iterate s callback w of
        (n, s', w1) \<Rightarrow>
          (case IterateAllPages_spec ss callback w1 of
             (ss', m, w2) \<Rightarrow> (s' # ss', n + m, w2)))"

text \<open>
  A per-chunk callback instrumented with a log: it behaves as the callback does and
  appends the chunk it was called on. Used to state on which chunks
  \<open>IterateMemoryChunks\<close> calls its callback.
\<close>

abbreviation LoggedCallback ::
  "(MemoryChunk \<Rightarrow> 'w \<Rightarrow> error + MemoryChunk \<times> 'w) \<Rightarrow>
   MemoryChunk \<Rightarrow> 'w \<times> MemoryChunk list \<Rightarrow> error + MemoryChunk \<times> ('w \<times> MemoryChunk list)" where
  "LoggedCallback callback \<equiv>
     (\<lambda>chunk (w, log).
        case callback chunk w of
          Inl e \<Rightarrow> Inl e
        | Inr (chunk', w') \<Rightarrow> Inr (chunk', (w', log @ [chunk])))"

text \<open>
  The chunk with the two tables of one direction replaced; used to state that an operation
  of the other direction neither reads nor changes them.
\<close>

abbreviation WithOldToNew ::
  "SlotSet list option \<Rightarrow> TypedSlotSet option \<Rightarrow> MemoryChunk \<Rightarrow> MemoryChunk" where
  "WithOldToNew a b chunk \<equiv> chunk\<lparr>old_to_new_slots := a, typed_old_to_new_slots := b\<rparr>"

abbreviation WithOldToOld ::
  "SlotSet list option \<Rightarrow> TypedSlotSet option \<Rightarrow> MemoryChunk \<Rightarrow> MemoryChunk" where
  "WithOldToOld a b chunk \<equiv> chunk\<lparr>old_to_old_slots := a, typed_old_to_old_slots := b\<rparr>"

section \<open>Concrete inputs for the examples\<close>

text \<open>
  A small instance of the external primitives: every reference is the 64-bit word stored
  at the address of the slot, a code object lies 95 bytes before its first instruction,
  and each encode primitive logs the address it writes to. The callback counts its calls.
\<close>

record World =
  code :: "Address \<Rightarrow> 64 word"
  patched :: "Address set"
  writes :: "Address list"
  calls :: nat

definition example_put :: "Address \<Rightarrow> 64 word \<Rightarrow> World \<Rightarrow> World" where
  "example_put a v w = w\<lparr>code := (code w)(a := v), writes := writes w @ [a]\<rparr>"

definition ExampleExternals :: "World Externals" where
  "ExampleExternals =
     \<lparr>IsCodeTarget = (\<lambda>m. m = CODE_TARGET),
      IsDebugBreakSlot = (\<lambda>m. m = DEBUG_BREAK_SLOT_AT_POSITION),
      IsPatchedDebugBreakSlotSequence = (\<lambda>r w. pc r \<in> patched w),
      target_cell = (\<lambda>r w. code w (pc r)),
      set_target_cell = (\<lambda>r. example_put (pc r)),
      target_address = (\<lambda>r w. code w (pc r)),
      set_target_address = (\<lambda>r. example_put (pc r)),
      target_object = (\<lambda>r w. code w (pc r)),
      set_target_object = (\<lambda>r. example_put (pc r)),
      debug_call_address = (\<lambda>r w. code w (pc r)),
      set_debug_call_address = (\<lambda>r. example_put (pc r)),
      GetCodeFromTargetAddress = (\<lambda>a. a - 95),
      GetObjectFromEntryAddress = (\<lambda>a w. code w a - 95),
      instruction_start = (\<lambda>obj. obj + 95),
      entry = (\<lambda>obj. obj + 95),
      Memory_Address_at_put = example_put,
      Object_at = (\<lambda>a w. code w a),
      Object_at_put = example_put\<rparr>"

text \<open>Every slot holds 4096; only the debug break slot at address 64 is patched.\<close>

definition example_world :: World where
  "example_world = \<lparr>code = (\<lambda>a. 4096), patched = {64}, writes = [], calls = 0\<rparr>"

text \<open>A policy that keeps the slot and leaves the pointer as it is.\<close>

definition example_keep :: "World SlotCallback" where
  "example_keep obj w = ((KEEP_SLOT, obj), w\<lparr>calls := calls w + 1\<rparr>)"

text \<open>
  A chunk of two page units of 524288 bytes at address 1048576, first without any table,
  then with an old-to-new table that records offset 20 of the second page unit, then with
  an old-to-new table that is allocated and records nothing.
\<close>

definition example_chunk :: MemoryChunk where
  "example_chunk =
     \<lparr>address = 1048576, chunk_size = 1048576,
      old_to_new_slots = None, old_to_old_slots = None,
      typed_old_to_new_slots = None, typed_old_to_old_slots = None\<rparr>"

definition example_chunk_one_slot :: MemoryChunk where
  "example_chunk_one_slot =
     example_chunk\<lparr>old_to_new_slots :=
       Some [\<lparr>page_start = 1048576, offsets = []\<rparr>, \<lparr>page_start = 1572864, offsets = [20]\<rparr>]\<rparr>"

definition example_chunk_empty_table :: MemoryChunk where
  "example_chunk_empty_table =
     example_chunk\<lparr>old_to_new_slots :=
       Some [\<lparr>page_start = 1048576, offsets = []\<rparr>, \<lparr>page_start = 1572864, offsets = []\<rparr>]\<rparr>"

text \<open>
  The example chunk with an old-to-old typed table of two entries, and a typed policy that
  removes every entry and counts its calls.
\<close>

definition example_typed_chunk :: MemoryChunk where
  "example_typed_chunk =
     example_chunk\<lparr>typed_old_to_old_slots :=
       Some \<lparr>typed_page_start = 1048576,
             typed_entries = [(CODE_TARGET_SLOT, 0, 40), (EMBEDDED_OBJECT_SLOT, 32, 48)]\<rparr>\<rparr>"

definition example_typed_remove_all ::
  "SlotType \<Rightarrow> Address \<Rightarrow> Address \<Rightarrow> nat \<Rightarrow> SlotCallbackResult \<times> nat" where
  "example_typed_remove_all slot_type host_addr slot_addr n = (REMOVE_SLOT, n + 1)"

text \<open>A policy that keeps every slot and has no effect.\<close>

definition example_keep_all :: "Address \<Rightarrow> unit \<Rightarrow> SlotCallbackResult \<times> unit" where
  "example_keep_all slot_addr u = (KEEP_SLOT, u)"

text \<open>A per-chunk callback that only logs the address of the chunk.\<close>

definition example_log_chunk ::
  "MemoryChunk \<Rightarrow> Address list \<Rightarrow> error + MemoryChunk \<times> Address list" where
  "example_log_chunk chunk log = Inr (chunk, log @ [address chunk])"

text \<open>A policy that removes every slot and counts its calls.\<close>

definition example_remove_all :: "Address \<Rightarrow> nat \<Rightarrow> SlotCallbackResult \<times> nat" where
  "example_remove_all slot_addr n = (REMOVE_SLOT, n + 1)"

text \<open>
  The example chunk with an old-to-new table that records offsets 16 and 64 of the first
  page unit and offset 20 of the second.
\<close>

definition example_chunk_three_slots :: MemoryChunk where
  "example_chunk_three_slots =
     example_chunk\<lparr>old_to_new_slots :=
       Some [\<lparr>page_start = 1048576, offsets = [16, 64]\<rparr>, \<lparr>page_start = 1572864, offsets = [20]\<rparr>]\<rparr>"

section \<open>Properties of UpdateTypedSlotHelper\<close>

text \<open>
  Claim C2. The dispatcher writes back asymmetrically. For the code-target,
  embedded-object, cell and code-entry kinds it decodes the reference, runs the policy
  and encodes the new pointer only when the policy returned a pointer different from the
  decoded one; otherwise the state is the one the policy left. For the debug-break kind in
  the patched state it encodes the pointer the policy returned in every case.
\<close>

theorem UpdateTypedSlot_write_back:
  assumes "IsCodeTarget X CODE_TARGET"
      and "IsDebugBreakSlot X DEBUG_BREAK_SLOT_AT_POSITION"
  shows
    "UpdateTypedSlot X CODE_TARGET_SLOT addr callback w =
       (let rinfo = \<lparr>pc = addr, rmode = CODE_TARGET\<rparr>;
            old = GetCodeFromTargetAddress X (target_address X rinfo w)
        in case callback old w of
             ((result, new), w1) \<Rightarrow>
               Inr (result, if new = old then w1
                            else set_target_address X rinfo (instruction_start X new) w1))
     \<and> UpdateTypedSlot X EMBEDDED_OBJECT_SLOT addr callback w =
       (let rinfo = \<lparr>pc = addr, rmode = EMBEDDED_OBJECT\<rparr>;
            old = target_object X rinfo w
        in case callback old w of
             ((result, new), w1) \<Rightarrow>
               Inr (result, if new = old then w1 else set_target_object X rinfo new w1))
     \<and> UpdateTypedSlot X CELL_TARGET_SLOT addr callback w =
       (let rinfo = \<lparr>pc = addr, rmode = CELL\<rparr>;
            old = target_cell X rinfo w
        in case callback old w of
             ((result, new), w1) \<Rightarrow>
               Inr (result, if new = old then w1 else set_target_cell X rinfo new w1))
     \<and> UpdateTypedSlot X CODE_ENTRY_SLOT addr callback w =
       (let old = GetObjectFromEntryAddress X addr w
        in case callback old w of
             ((result, new), w1) \<Rightarrow>
               Inr (result, if new = old then w1
                            else Memory_Address_at_put X addr (entry X new) w1))
     \<and> (IsPatchedDebugBreakSlotSequence X \<lparr>pc = addr, rmode = DEBUG_BREAK_SLOT_AT_POSITION\<rparr> w \<longrightarrow>
        UpdateTypedSlot X DEBUG_TARGET_SLOT addr callback w =
          (let rinfo = \<lparr>pc = addr, rmode = DEBUG_BREAK_SLOT_AT_POSITION\<rparr>;
               old = GetCodeFromTargetAddress X (debug_call_address X rinfo w)
           in case callback old w of
                ((result, new), w1) \<Rightarrow>
                  Inr (result, set_debug_call_address X rinfo (instruction_start X new) w1)))"
proof (intro conjI impI)
  show "UpdateTypedSlot X CODE_TARGET_SLOT addr callback w =
       (let rinfo = \<lparr>pc = addr, rmode = CODE_TARGET\<rparr>;
            old = GetCodeFromTargetAddress X (target_address X rinfo w)
        in case callback old w of
             ((result, new), w1) \<Rightarrow>
               Inr (result, if new = old then w1
                            else set_target_address X rinfo (instruction_start X new) w1))"
    using assms(1)
    by (simp add: UpdateTypedSlot_def UpdateCodeTarget_def Let_def split: prod.splits)
next
  show "UpdateTypedSlot X EMBEDDED_OBJECT_SLOT addr callback w =
       (let rinfo = \<lparr>pc = addr, rmode = EMBEDDED_OBJECT\<rparr>;
            old = target_object X rinfo w
        in case callback old w of
             ((result, new), w1) \<Rightarrow>
               Inr (result, if new = old then w1 else set_target_object X rinfo new w1))"
    by (simp add: UpdateTypedSlot_def UpdateEmbeddedPointer_def Let_def split: prod.splits)
next
  show "UpdateTypedSlot X CELL_TARGET_SLOT addr callback w =
       (let rinfo = \<lparr>pc = addr, rmode = CELL\<rparr>;
            old = target_cell X rinfo w
        in case callback old w of
             ((result, new), w1) \<Rightarrow>
               Inr (result, if new = old then w1 else set_target_cell X rinfo new w1))"
    by (simp add: UpdateTypedSlot_def UpdateCell_def Let_def split: prod.splits)
next
  show "UpdateTypedSlot X CODE_ENTRY_SLOT addr callback w =
       (let old = GetObjectFromEntryAddress X addr w
        in case callback old w of
             ((result, new), w1) \<Rightarrow>
               Inr (result, if new = old then w1
                            else Memory_Address_at_put X addr (entry X new) w1))"
    by (simp add: UpdateTypedSlot_def UpdateCodeEntry_def Let_def split: prod.splits)
next
  assume "IsPatchedDebugBreakSlotSequence X \<lparr>pc = addr, rmode = DEBUG_BREAK_SLOT_AT_POSITION\<rparr> w"
  then show "UpdateTypedSlot X DEBUG_TARGET_SLOT addr callback w =
          (let rinfo = \<lparr>pc = addr, rmode = DEBUG_BREAK_SLOT_AT_POSITION\<rparr>;
               old = GetCodeFromTargetAddress X (debug_call_address X rinfo w)
           in case callback old w of
                ((result, new), w1) \<Rightarrow>
                  Inr (result, set_debug_call_address X rinfo (instruction_start X new) w1))"
    using assms(2)
    by (simp add: UpdateTypedSlot_def UpdateDebugTarget_def Let_def split: prod.splits)
qed

text \<open>
  With the policy that leaves the pointer unchanged, the code-target slot at address 64 is
  not written (the write log stays empty), while the patched debug-break slot at the same
  address is written once.
\<close>

theorem UpdateTypedSlot_write_back_witness:
  "IsCodeTarget ExampleExternals CODE_TARGET
   \<and> IsDebugBreakSlot ExampleExternals DEBUG_BREAK_SLOT_AT_POSITION
   \<and> IsPatchedDebugBreakSlotSequence ExampleExternals
        \<lparr>pc = 64, rmode = DEBUG_BREAK_SLOT_AT_POSITION\<rparr> example_world
   \<and> UpdateTypedSlot ExampleExternals CODE_TARGET_SLOT 64 example_keep example_world =
        Inr (KEEP_SLOT, example_world\<lparr>calls := 1\<rparr>)
   \<and> UpdateTypedSlot ExampleExternals DEBUG_TARGET_SLOT 64 example_keep example_world =
        Inr (KEEP_SLOT, example_world\<lparr>writes := [64], calls := 1\<rparr>)"
  using UpdateTypedSlot_write_back [of ExampleExternals 64 example_keep example_world]
  by (simp add: ExampleExternals_def example_world_def example_keep_def example_put_def
        fun_upd_idem_iff)

text \<open>
  Claim C3. For the debug-break kind, when the instruction sequence at the slot is not in
  the patched state, the dispatcher returns \<open>REMOVE_SLOT\<close> and the state it was given:
  whatever the policy is, none of its effects has happened and nothing has been written.
\<close>

theorem UpdateTypedSlot_unpatched_debug_target:
  assumes "\<not> IsPatchedDebugBreakSlotSequence X \<lparr>pc = addr, rmode = DEBUG_BREAK_SLOT_AT_POSITION\<rparr> w"
  shows "UpdateTypedSlot X DEBUG_TARGET_SLOT addr callback w = Inr (REMOVE_SLOT, w)"
  using assms by (simp add: UpdateTypedSlot_def)

text \<open>
  The slot at address 128 is not patched. The policy \<open>example_keep\<close> would count a call
  and return \<open>KEEP_SLOT\<close>; the dispatcher returns \<open>REMOVE_SLOT\<close> with no call counted
  and no write logged.
\<close>

theorem UpdateTypedSlot_unpatched_debug_target_witness:
  "\<not> IsPatchedDebugBreakSlotSequence ExampleExternals
        \<lparr>pc = 128, rmode = DEBUG_BREAK_SLOT_AT_POSITION\<rparr> example_world
   \<and> UpdateTypedSlot ExampleExternals DEBUG_TARGET_SLOT 128 example_keep example_world
        = Inr (REMOVE_SLOT, example_world)
   \<and> calls example_world = 0 \<and> writes example_world = []
   \<and> example_keep 7 example_world = ((KEEP_SLOT, 7), example_world\<lparr>calls := 1\<rparr>)"
  using UpdateTypedSlot_unpatched_debug_target
          [of ExampleExternals 128 example_world example_keep]
  by (simp add: ExampleExternals_def example_world_def example_keep_def)

section \<open>Properties of RememberedSet\<close>

subsection \<open>The page unit of a contained address\<close>

text \<open>
  For an address the chunk contains, the index \<open>offset / Page::kPageSize\<close> is below the
  number of page units \<open>(size + Page::kPageSize - 1) / Page::kPageSize\<close>, provided the
  page size is positive and rounding the size up does not overflow \<open>size_t\<close>.
\<close>

lemma nat_div_lt:
  fixes off sz kk :: nat
  assumes "off < sz" "0 < kk"
  shows "off div kk < (sz + kk - 1) div kk"
proof -
  have "off div kk * kk \<le> off" by simp
  then have "off div kk * kk + kk \<le> sz + kk - 1" using assms by linarith
  then have "(off div kk + 1) * kk \<le> sz + kk - 1" by (simp add: algebra_simps)
  then have "off div kk + 1 \<le> (sz + kk - 1) div kk"
    using assms(2) by (simp add: less_eq_div_iff_mult_less_eq)
  then show ?thesis by simp
qed

lemma unat_round_up:
  fixes k sz :: "64 word"
  assumes "0 < k" and "unat sz + unat k - 1 < 2 ^ 64"
  shows "unat (sz + k - 1) = unat sz + unat k - 1"
proof -
  have k0: "0 < unat k" using assms(1) by (simp add: word_less_nat_alt)
  have k1: "unat (k - 1) = unat k - 1"
    using assms(1) by (simp add: unat_minus_one word_neq_0_conv)
  have "unat (sz + (k - 1)) = unat sz + unat (k - 1)"
    using assms(2) k0 k1 by (simp add: unat_add_lem [THEN iffD1])
  moreover have "sz + k - 1 = sz + (k - 1)" by simp
  ultimately show ?thesis using k0 k1 by (simp only: )
qed

lemma page_index_in_range:
  fixes k :: "64 word"
  assumes "Contains page a" and "0 < k"
      and "unat (chunk_size page) + unat k - 1 < 2 ^ 64"
  shows "unat ((a - address page) div k) < unat ((chunk_size page + k - 1) div k)"
proof -
  have le: "address page \<le> a" and lt: "unat a < unat (address page) + unat (chunk_size page)"
    using assms(1) by (simp_all add: Contains_def)
  have k0: "0 < unat k" using assms(2) by (simp add: word_less_nat_alt)
  have off: "unat (a - address page) = unat a - unat (address page)"
    using le by (simp add: unat_sub)
  have offlt: "unat (a - address page) < unat (chunk_size page)"
    using off lt le by (simp add: word_le_nat_alt)
  have "unat (a - address page) div unat k < (unat (chunk_size page) + unat k - 1) div unat k"
    using offlt k0 by (rule nat_div_lt)
  then show ?thesis
    using unat_round_up [OF assms(2) assms(3)] by (simp add: unat_div)
qed

subsection \<open>Operations on an absent table\<close>

lemma SlotSet_Remove_absent:
  "slot_offset \<notin> set (offsets s) \<Longrightarrow> SlotSet_Remove s slot_offset = s"
proof -
  assume "slot_offset \<notin> set (offsets s)"
  then have "filter (\<lambda>x. x \<noteq> slot_offset) (offsets s) = offsets s"
    by (auto simp: filter_id_conv)
  then show ?thesis by (simp add: SlotSet_Remove_def)
qed

lemma StoreSlotSet_same:
  "GetSlotSet direction chunk = Some slots \<Longrightarrow> StoreSlotSet direction chunk slots = chunk"
  by (auto simp: GetSlotSet_def StoreSlotSet_def split: if_splits)

text \<open>
  Claim C6. When the slot table of the direction is absent, \<open>Remove\<close> and
  \<open>RemoveRange\<close> return the page as it was, and so does \<open>RemoveRangeTyped\<close> when the
  typed table is absent: no table is allocated and no field changes. (\<open>Remove\<close> checks
  its precondition first: for an address outside the page the \<open>DCHECK\<close> fails.) When
  the table is present, with one slot set per page unit, \<open>Remove\<close> of an offset that is
  not recorded returns the page as it was.
\<close>

theorem Remove_absent_is_noop:
  "(GetSlotSet direction page = None \<longrightarrow>
      Remove kPageSize direction page slot_addr =
        (if Contains page slot_addr then Inr page else Inl DcheckFailed))
   \<and> (GetSlotSet direction page = None \<longrightarrow>
      RemoveRange kPageSize direction page start end = Inr page)
   \<and> (GetTypedSlotSet direction page = None \<longrightarrow>
      RemoveRangeTyped direction page start end = page)
   \<and> (GetSlotSet direction page = Some slots
      \<and> length slots = unat ((chunk_size page + kPageSize - 1) div kPageSize)
      \<and> 0 < kPageSize \<and> unat (chunk_size page) + unat kPageSize - 1 < 2 ^ 64
      \<and> Contains page slot_addr
      \<and> unat ((slot_addr - address page) mod kPageSize)
           \<notin> set (offsets (slots ! unat ((slot_addr - address page) div kPageSize))) \<longrightarrow>
      Remove kPageSize direction page slot_addr = Inr page)"
proof (intro conjI impI)
  assume "GetSlotSet direction page = None"
  then show "Remove kPageSize direction page slot_addr =
        (if Contains page slot_addr then Inr page else Inl DcheckFailed)"
    by (simp add: Remove_def)
next
  assume "GetSlotSet direction page = None"
  then show "RemoveRange kPageSize direction page start end = Inr page"
    by (simp add: RemoveRange_def)
next
  assume "GetTypedSlotSet direction page = None"
  then show "RemoveRangeTyped direction page start end = page"
    by (simp add: RemoveRangeTyped_def)
next
  assume h: "GetSlotSet direction page = Some slots
      \<and> length slots = unat ((chunk_size page + kPageSize - 1) div kPageSize)
      \<and> 0 < kPageSize \<and> unat (chunk_size page) + unat kPageSize - 1 < 2 ^ 64
      \<and> Contains page slot_addr
      \<and> unat ((slot_addr - address page) mod kPageSize)
           \<notin> set (offsets (slots ! unat ((slot_addr - address page) div kPageSize)))"
  then have i: "unat ((slot_addr - address page) div kPageSize) < length slots"
    using page_index_in_range [of page slot_addr kPageSize] by simp
  have "SlotSet_Remove (slots ! unat ((slot_addr - address page) div kPageSize))
          (unat ((slot_addr - address page) mod kPageSize))
        = slots ! unat ((slot_addr - address page) div kPageSize)"
    using h by (simp add: SlotSet_Remove_absent)
  then show "Remove kPageSize direction page slot_addr = Inr page"
    using h i by (simp add: Remove_def Let_def StoreSlotSet_same)
qed

text \<open>
  On the example chunk without tables the three removals change nothing; on the chunk
  that records offset 20 of the second page unit, removing offset 24 of that page unit
  changes nothing.
\<close>

theorem Remove_absent_is_noop_witness:
  "GetSlotSet OLD_TO_NEW example_chunk = None
   \<and> GetTypedSlotSet OLD_TO_NEW example_chunk = None
   \<and> Contains example_chunk 1572884
   \<and> Remove 524288 OLD_TO_NEW example_chunk 1572884 = Inr example_chunk
   \<and> RemoveRange 524288 OLD_TO_NEW example_chunk 1048584 1048608 = Inr example_chunk
   \<and> RemoveRangeTyped OLD_TO_NEW example_chunk 1048584 1048608 = example_chunk
   \<and> GetSlotSet OLD_TO_NEW example_chunk_one_slot =
        Some [\<lparr>page_start = 1048576, offsets = []\<rparr>, \<lparr>page_start = 1572864, offsets = [20]\<rparr>]
   \<and> Remove 524288 OLD_TO_NEW example_chunk_one_slot 1572888 = Inr example_chunk_one_slot"
  using Remove_absent_is_noop
          [of OLD_TO_NEW example_chunk 524288 1572884 1048584 1048608]
        Remove_absent_is_noop
          [of OLD_TO_NEW example_chunk_one_slot 524288 1572888 _ _
              "[\<lparr>page_start = 1048576, offsets = []\<rparr>, \<lparr>page_start = 1572864, offsets = [20]\<rparr>]"]
  by (simp add: example_chunk_def example_chunk_one_slot_def GetSlotSet_def GetTypedSlotSet_def
        Contains_def)

subsection \<open>ClearAll\<close>

text \<open>
  Claim C5. \<open>ClearAll\<close> exists for the old-to-old direction only: for the old-to-new
  direction the static assertion fails. For the old-to-old direction it releases the
  old-to-old slot table and the old-to-old typed slot table of every chunk of the heap,
  whatever they hold, and changes nothing else.
\<close>

theorem ClearAll_releases:
  "ClearAll OLD_TO_NEW heap = Inl StaticAssertFailed
   \<and> ClearAll OLD_TO_OLD heap =
       Inr (map (\<lambda>chunk. chunk\<lparr>old_to_old_slots := None, typed_old_to_old_slots := None\<rparr>) heap)"
  by (simp add: ClearAll_def ReleaseOldToOldSlots_def ReleaseTypedOldToOldSlots_def)

subsection \<open>The typed table\<close>

lemma TypedSlotSet_IterateEntries_pure:
  "TypedSlotSet_IterateEntries ps xs (\<lambda>slot_type host_addr slot_addr u. (f slot_type host_addr slot_addr, u)) u =
     (filter (\<lambda>(slot_type, host_offset, offset).
                f slot_type (ps + ucast host_offset) (ps + ucast offset) = KEEP_SLOT) xs, u)"
  by (induction xs) (auto split: SlotCallbackResult.splits)

lemma GetTypedSlotSet_StoreTypedSlotSet:
  "GetTypedSlotSet direction (StoreTypedSlotSet direction chunk s) = Some s"
  by (simp add: GetTypedSlotSet_def StoreTypedSlotSet_def)

lemma GetTypedSlotSet_ReleaseTypedSlotSet:
  "GetTypedSlotSet direction (ReleaseTypedSlotSet direction chunk) = None"
  by (simp add: GetTypedSlotSet_def ReleaseTypedSlotSet_def ReleaseTypedOldToOldSlots_def
        ReleaseTypedOldToNewSlots_def)

lemma RemoveRangeTyped_present:
  assumes "GetTypedSlotSet direction page = Some slots"
  shows "RemoveRangeTyped direction page start end =
           StoreTypedSlotSet direction page
             (slots\<lparr>typed_entries :=
                filter (\<lambda>(slot_type, host_offset, offset).
                          \<not> (start \<le> typed_page_start slots + ucast offset
                             \<and> typed_page_start slots + ucast offset < end))
                  (typed_entries slots)\<rparr>)"
proof -
  have "(\<lambda>(slot_type :: SlotType, host_offset :: 32 word, offset :: 32 word).
            (if start \<le> typed_page_start slots + ucast offset
                \<and> typed_page_start slots + ucast offset < end
             then REMOVE_SLOT else KEEP_SLOT) = KEEP_SLOT)
        = (\<lambda>(slot_type, host_offset, offset).
             \<not> (start \<le> typed_page_start slots + ucast offset
                \<and> typed_page_start slots + ucast offset < end))"
    by (auto simp: fun_eq_iff)
  then show ?thesis
    using assms
    by (simp add: RemoveRangeTyped_def TypedSlotSet_Iterate_def
          TypedSlotSet_IterateEntries_pure
            [where f = "\<lambda>slot_type host_addr slot_addr.
                          if start \<le> slot_addr \<and> slot_addr < end then REMOVE_SLOT else KEEP_SLOT"])
qed

lemma IterateTyped_empty:
  assumes "GetTypedSlotSet direction chunk = Some slots" and "typed_entries slots = []"
  shows "IterateTyped direction chunk callback w = (ReleaseTypedSlotSet direction chunk, w)"
  using assms by (simp add: IterateTyped_def TypedSlotSet_Iterate_def)

lemma Insert_keeps_typed:
  "Insert kPageSize d' chunk slot_addr = Inr chunk' \<Longrightarrow>
     GetTypedSlotSet direction chunk' = GetTypedSlotSet direction chunk"
  by (auto simp: Insert_def Let_def GetTypedSlotSet_def StoreSlotSet_def AllocateSlotSet_def
        AllocateOldToOldSlots_def AllocateOldToNewSlots_def
      split: if_splits option.splits prod.splits)

lemma Remove_keeps_typed:
  "Remove kPageSize d' chunk slot_addr = Inr chunk' \<Longrightarrow>
     GetTypedSlotSet direction chunk' = GetTypedSlotSet direction chunk"
  by (auto simp: Remove_def Let_def GetTypedSlotSet_def StoreSlotSet_def
      split: if_splits option.splits)

lemma RemoveRange_keeps_typed:
  "RemoveRange kPageSize d' chunk start end = Inr chunk' \<Longrightarrow>
     GetTypedSlotSet direction chunk' = GetTypedSlotSet direction chunk"
  by (auto simp: RemoveRange_def Let_def GetTypedSlotSet_def StoreSlotSet_def
      split: if_splits option.splits list.splits)

lemma Iterate_keeps_typed:
  "Iterate kPageSize d' chunk callback w = Inr (chunk', w') \<Longrightarrow>
     GetTypedSlotSet direction chunk' = GetTypedSlotSet direction chunk"
  by (auto simp: Iterate_def Let_def GetTypedSlotSet_def StoreSlotSet_def ReleaseSlotSet_def
        ReleaseOldToOldSlots_def ReleaseOldToNewSlots_def
      split: if_splits option.splits sum.splits)

lemma InsertTyped_keeps_typed:
  "InsertTyped kMaxOffset d' chunk host_addr slot_type slot_addr = Inr chunk' \<Longrightarrow>
     GetTypedSlotSet direction chunk \<noteq> None \<Longrightarrow> GetTypedSlotSet direction chunk' \<noteq> None"
  by (auto simp: InsertTyped_def Let_def GetTypedSlotSet_def StoreTypedSlotSet_def
        AllocateTypedSlotSet_def AllocateTypedOldToOldSlots_def AllocateTypedOldToNewSlots_def
      split: if_splits option.splits prod.splits)

lemma IterateTyped_released_iff:
  assumes "GetTypedSlotSet direction chunk = Some slots"
  shows "GetTypedSlotSet direction (fst (IterateTyped direction chunk callback w)) = None
         \<longleftrightarrow> fst (TypedSlotSet_IterateEntries (typed_page_start slots) (typed_entries slots) callback w) = []"
  using assms
  by (simp add: IterateTyped_def TypedSlotSet_Iterate_def GetTypedSlotSet_StoreTypedSlotSet
        GetTypedSlotSet_ReleaseTypedSlotSet split: prod.splits)

lemma IterateTyped_other_keeps_typed:
  "d' \<noteq> direction \<Longrightarrow>
     GetTypedSlotSet direction (fst (IterateTyped d' chunk callback w)) = GetTypedSlotSet direction chunk"
  by (cases d'; cases direction)
     (auto simp: IterateTyped_def GetTypedSlotSet_def StoreTypedSlotSet_def ReleaseTypedSlotSet_def
        ReleaseTypedOldToOldSlots_def ReleaseTypedOldToNewSlots_def
      split: option.splits prod.splits)

lemma RemoveRangeTyped_other_keeps_typed:
  "d' \<noteq> direction \<Longrightarrow>
     GetTypedSlotSet direction (RemoveRangeTyped d' chunk start end) = GetTypedSlotSet direction chunk"
  by (cases d'; cases direction)
     (auto simp: RemoveRangeTyped_def GetTypedSlotSet_def StoreTypedSlotSet_def
      split: option.splits prod.splits)

text \<open>
  Claim C10. \<open>RemoveRangeTyped\<close> drops the count of its iteration: when the typed table
  is present it stays present, holding the entries outside the range, even when that
  leaves no entry. The empty table is released by the next \<open>IterateTyped\<close> of the
  direction, which releases exactly when no entry is kept, or by \<open>ClearAll\<close>; the
  other operations leave a present typed table present.
\<close>

theorem RemoveRangeTyped_keeps_table:
  assumes "GetTypedSlotSet direction page = Some slots"
  shows
    "GetTypedSlotSet direction (RemoveRangeTyped direction page start end) =
       Some (slots\<lparr>typed_entries :=
               filter (\<lambda>(slot_type, host_offset, offset).
                         \<not> (start \<le> typed_page_start slots + ucast offset
                            \<and> typed_page_start slots + ucast offset < end))
                 (typed_entries slots)\<rparr>)
     \<and> ((\<forall>(slot_type, host_offset, offset) \<in> set (typed_entries slots).
           start \<le> typed_page_start slots + ucast offset
           \<and> typed_page_start slots + ucast offset < end) \<longrightarrow>
         GetTypedSlotSet direction (RemoveRangeTyped direction page start end) =
           Some (slots\<lparr>typed_entries := []\<rparr>)
         \<and> GetTypedSlotSet direction
             (fst (IterateTyped direction (RemoveRangeTyped direction page start end) callback w)) = None)
     \<and> (GetTypedSlotSet direction (fst (IterateTyped direction page callback w)) = None \<longleftrightarrow>
          fst (TypedSlotSet_IterateEntries (typed_page_start slots) (typed_entries slots) callback w) = [])
     \<and> ClearAll OLD_TO_OLD [page] = Inr [page\<lparr>old_to_old_slots := None, typed_old_to_old_slots := None\<rparr>]
     \<and> (\<forall>k d' a page'. Insert k d' page a = Inr page' \<longrightarrow>
           GetTypedSlotSet direction page' = Some slots)
     \<and> (\<forall>k d' a page'. Remove k d' page a = Inr page' \<longrightarrow>
           GetTypedSlotSet direction page' = Some slots)
     \<and> (\<forall>k d' a b page'. RemoveRange k d' page a b = Inr page' \<longrightarrow>
           GetTypedSlotSet direction page' = Some slots)
     \<and> (\<forall>k d' (cb :: Address \<Rightarrow> 'w \<Rightarrow> SlotCallbackResult \<times> 'w) v page' v'.
           Iterate k d' page cb v = Inr (page', v') \<longrightarrow>
           GetTypedSlotSet direction page' = Some slots)
     \<and> (\<forall>m d' h t a page'. InsertTyped m d' page h t a = Inr page' \<longrightarrow>
           GetTypedSlotSet direction page' \<noteq> None)"
proof (intro conjI impI allI)
  let ?keep = "\<lambda>(slot_type :: SlotType, host_offset :: 32 word, offset :: 32 word).
                 \<not> (start \<le> typed_page_start slots + ucast offset
                    \<and> typed_page_start slots + ucast offset < end)"
  show a: "GetTypedSlotSet direction (RemoveRangeTyped direction page start end) =
       Some (slots\<lparr>typed_entries := filter ?keep (typed_entries slots)\<rparr>)"
    by (simp add: RemoveRangeTyped_present [OF assms] GetTypedSlotSet_StoreTypedSlotSet)
  {
    assume all: "\<forall>(slot_type, host_offset, offset) \<in> set (typed_entries slots).
           start \<le> typed_page_start slots + ucast offset
           \<and> typed_page_start slots + ucast offset < end"
    then have "filter ?keep (typed_entries slots) = []"
      by (auto simp: filter_empty_conv)
    with a show b: "GetTypedSlotSet direction (RemoveRangeTyped direction page start end) =
           Some (slots\<lparr>typed_entries := []\<rparr>)"
      by simp
    show "GetTypedSlotSet direction
             (fst (IterateTyped direction (RemoveRangeTyped direction page start end) callback w)) = None"
      by (simp add: IterateTyped_empty [OF b] GetTypedSlotSet_ReleaseTypedSlotSet)
  }
  show "GetTypedSlotSet direction (fst (IterateTyped direction page callback w)) = None \<longleftrightarrow>
          fst (TypedSlotSet_IterateEntries (typed_page_start slots) (typed_entries slots) callback w) = []"
    by (rule IterateTyped_released_iff [OF assms])
  show "ClearAll OLD_TO_OLD [page] = Inr [page\<lparr>old_to_old_slots := None, typed_old_to_old_slots := None\<rparr>]"
    by (simp add: ClearAll_def ReleaseOldToOldSlots_def ReleaseTypedOldToOldSlots_def)
next
  fix k d' a page' assume "Insert k d' page a = Inr page'"
  then show "GetTypedSlotSet direction page' = Some slots"
    using Insert_keeps_typed assms by metis
next
  fix k d' a page' assume "Remove k d' page a = Inr page'"
  then show "GetTypedSlotSet direction page' = Some slots"
    using Remove_keeps_typed assms by metis
next
  fix k d' a b page' assume "RemoveRange k d' page a b = Inr page'"
  then show "GetTypedSlotSet direction page' = Some slots"
    using RemoveRange_keeps_typed assms by metis
next
  fix k d' and cb :: "Address \<Rightarrow> 'w \<Rightarrow> SlotCallbackResult \<times> 'w" and v page' v'
  assume "Iterate k d' page cb v = Inr (page', v')"
  then show "GetTypedSlotSet direction page' = Some slots"
    using Iterate_keeps_typed assms by metis
next
  fix m d' h t a page' assume "InsertTyped m d' page h t a = Inr page'"
  then show "GetTypedSlotSet direction page' \<noteq> None"
    using InsertTyped_keeps_typed [of m d' page h t a page' direction] assms by simp
qed

text \<open>
  Both entries of the example table lie in the range: after \<open>RemoveRangeTyped\<close> the
  table is attached and empty, and \<open>IterateTyped\<close> then releases it.
\<close>

theorem RemoveRangeTyped_keeps_table_witness:
  "GetTypedSlotSet OLD_TO_OLD example_typed_chunk =
     Some \<lparr>typed_page_start = 1048576,
           typed_entries = [(CODE_TARGET_SLOT, 0, 40), (EMBEDDED_OBJECT_SLOT, 32, 48)]\<rparr>
   \<and> GetTypedSlotSet OLD_TO_OLD (RemoveRangeTyped OLD_TO_OLD example_typed_chunk 1048576 1048640) =
       Some \<lparr>typed_page_start = 1048576, typed_entries = []\<rparr>
   \<and> GetTypedSlotSet OLD_TO_OLD
       (fst (IterateTyped OLD_TO_OLD
               (RemoveRangeTyped OLD_TO_OLD example_typed_chunk 1048576 1048640)
               example_typed_remove_all 0)) = None"
proof -
  have h: "GetTypedSlotSet OLD_TO_OLD example_typed_chunk =
     Some \<lparr>typed_page_start = 1048576,
           typed_entries = [(CODE_TARGET_SLOT, 0, 40), (EMBEDDED_OBJECT_SLOT, 32, 48)]\<rparr>"
    by (simp add: example_typed_chunk_def example_chunk_def GetTypedSlotSet_def)
  note t = RemoveRangeTyped_keeps_table [OF h, of 1048576 1048640 example_typed_remove_all 0]
  from t [THEN conjunct2, THEN conjunct1] have
    "GetTypedSlotSet OLD_TO_OLD (RemoveRangeTyped OLD_TO_OLD example_typed_chunk 1048576 1048640) =
       Some \<lparr>typed_page_start = 1048576, typed_entries = []\<rparr>
     \<and> GetTypedSlotSet OLD_TO_OLD
       (fst (IterateTyped OLD_TO_OLD
               (RemoveRangeTyped OLD_TO_OLD example_typed_chunk 1048576 1048640)
               example_typed_remove_all 0)) = None"
    by simp
  with h show ?thesis by simp
qed

text \<open>
  Claim C8. \<open>InsertTyped\<close> uses the present typed table or a fresh empty one, records
  host offset 0 when the host address is the base address of the chunk (or \<open>nullptr\<close>),
  and appends the entry only when the slot offset and the host offset are both below
  \<open>TypedSlotSet::kMaxOffset\<close>; otherwise a \<open>DCHECK\<close> fails.
\<close>

theorem InsertTyped_records_offsets:
  "InsertTyped kMaxOffset direction page host_addr slot_type slot_addr =
     (let slot_set = (case GetTypedSlotSet direction page of
                        None \<Rightarrow> \<lparr>typed_page_start = address page, typed_entries = []\<rparr>
                      | Some s \<Rightarrow> s);
          offset = slot_addr - address page;
          host_offset = (if host_addr = 0 \<or> host_addr = address page then 0
                         else host_addr - address page)
      in if offset < word_of_int kMaxOffset \<and> host_offset < word_of_int kMaxOffset
         then Inr (StoreTypedSlotSet direction page
                     (slot_set\<lparr>typed_entries :=
                        typed_entries slot_set @ [(slot_type, ucast host_offset, ucast offset)]\<rparr>))
         else Inl DcheckFailed)"
  by (cases direction)
     (auto simp: InsertTyped_def Let_def GetTypedSlotSet_def StoreTypedSlotSet_def
        AllocateTypedSlotSet_def AllocateTypedOldToOldSlots_def AllocateTypedOldToNewSlots_def
        TypedSlotSet_Insert_def
      split: option.splits)

text \<open>
  With the limit \<open>1 << 29\<close>, a host at the base address and a null host both record
  host offset 0 in a new table; with the limit 32, slot offset 40 or host offset 40 fails.
\<close>

theorem InsertTyped_records_offsets_witness:
  "InsertTyped 536870912 OLD_TO_OLD example_chunk 1048576 CODE_TARGET_SLOT 1048616 =
     Inr (example_chunk\<lparr>typed_old_to_old_slots :=
            Some \<lparr>typed_page_start = 1048576, typed_entries = [(CODE_TARGET_SLOT, 0, 40)]\<rparr>\<rparr>)
   \<and> InsertTyped 536870912 OLD_TO_OLD example_chunk 0 CODE_TARGET_SLOT 1048616 =
     Inr (example_chunk\<lparr>typed_old_to_old_slots :=
            Some \<lparr>typed_page_start = 1048576, typed_entries = [(CODE_TARGET_SLOT, 0, 40)]\<rparr>\<rparr>)
   \<and> InsertTyped 32 OLD_TO_OLD example_chunk 1048576 CODE_TARGET_SLOT 1048616 = Inl DcheckFailed
   \<and> InsertTyped 32 OLD_TO_OLD example_chunk 1048616 CODE_TARGET_SLOT 1048584 = Inl DcheckFailed"
  using InsertTyped_records_offsets [of 536870912 OLD_TO_OLD example_chunk 1048576 CODE_TARGET_SLOT 1048616]
        InsertTyped_records_offsets [of 536870912 OLD_TO_OLD example_chunk 0 CODE_TARGET_SLOT 1048616]
        InsertTyped_records_offsets [of 32 OLD_TO_OLD example_chunk 1048576 CODE_TARGET_SLOT 1048616]
        InsertTyped_records_offsets [of 32 OLD_TO_OLD example_chunk 1048616 CODE_TARGET_SLOT 1048584]
  by (simp add: example_chunk_def GetTypedSlotSet_def StoreTypedSlotSet_def)

subsection \<open>The two directions\<close>

lemmas accessor_defs =
  GetSlotSet_def GetTypedSlotSet_def ReleaseSlotSet_def ReleaseTypedSlotSet_def
  AllocateSlotSet_def AllocateTypedSlotSet_def StoreSlotSet_def StoreTypedSlotSet_def
  AllocateOldToOldSlots_def AllocateOldToNewSlots_def ReleaseOldToOldSlots_def
  ReleaseOldToNewSlots_def AllocateTypedOldToOldSlots_def AllocateTypedOldToNewSlots_def
  ReleaseTypedOldToOldSlots_def ReleaseTypedOldToNewSlots_def

lemma iso_Insert_oo:
  "Insert k OLD_TO_OLD (WithOldToNew a b c) x = map_sum id (WithOldToNew a b) (Insert k OLD_TO_OLD c x)"
  by (simp add: Insert_def Contains_def accessor_defs Let_def split: option.splits)

lemma iso_Insert_on:
  "Insert k OLD_TO_NEW (WithOldToOld a b c) x = map_sum id (WithOldToOld a b) (Insert k OLD_TO_NEW c x)"
  by (simp add: Insert_def Contains_def accessor_defs Let_def split: option.splits)

lemma iso_Remove_oo:
  "Remove k OLD_TO_OLD (WithOldToNew a b c) x = map_sum id (WithOldToNew a b) (Remove k OLD_TO_OLD c x)"
  by (simp add: Remove_def Contains_def accessor_defs Let_def split: option.splits)

lemma iso_Remove_on:
  "Remove k OLD_TO_NEW (WithOldToOld a b c) x = map_sum id (WithOldToOld a b) (Remove k OLD_TO_NEW c x)"
  by (simp add: Remove_def Contains_def accessor_defs Let_def split: option.splits)

lemma iso_RemoveRange_oo:
  "RemoveRange k OLD_TO_OLD (WithOldToNew a b c) s e = map_sum id (WithOldToNew a b) (RemoveRange k OLD_TO_OLD c s e)"
  by (simp add: RemoveRange_def accessor_defs Let_def split: option.splits list.splits)

lemma iso_RemoveRange_on:
  "RemoveRange k OLD_TO_NEW (WithOldToOld a b c) s e = map_sum id (WithOldToOld a b) (RemoveRange k OLD_TO_NEW c s e)"
  by (simp add: RemoveRange_def accessor_defs Let_def split: option.splits list.splits)

lemma iso_InsertTyped_oo:
  "InsertTyped m OLD_TO_OLD (WithOldToNew a b c) h t x = map_sum id (WithOldToNew a b) (InsertTyped m OLD_TO_OLD c h t x)"
  by (simp add: InsertTyped_def accessor_defs Let_def split: option.splits)

lemma iso_InsertTyped_on:
  "InsertTyped m OLD_TO_NEW (WithOldToOld a b c) h t x = map_sum id (WithOldToOld a b) (InsertTyped m OLD_TO_NEW c h t x)"
  by (simp add: InsertTyped_def accessor_defs Let_def split: option.splits)

lemma iso_RemoveRangeTyped_oo:
  "RemoveRangeTyped OLD_TO_OLD (WithOldToNew a b c) s e = WithOldToNew a b (RemoveRangeTyped OLD_TO_OLD c s e)"
  by (simp add: RemoveRangeTyped_def accessor_defs split: option.splits prod.splits)

lemma iso_RemoveRangeTyped_on:
  "RemoveRangeTyped OLD_TO_NEW (WithOldToOld a b c) s e = WithOldToOld a b (RemoveRangeTyped OLD_TO_NEW c s e)"
  by (simp add: RemoveRangeTyped_def accessor_defs split: option.splits prod.splits)

lemma iso_Iterate_oo:
  "Iterate k OLD_TO_OLD (WithOldToNew a b c) cb w = map_sum id (apfst (WithOldToNew a b)) (Iterate k OLD_TO_OLD c cb w)"
  by (simp add: Iterate_def accessor_defs Let_def split: option.splits sum.splits prod.splits)

lemma iso_Iterate_on:
  "Iterate k OLD_TO_NEW (WithOldToOld a b c) cb w = map_sum id (apfst (WithOldToOld a b)) (Iterate k OLD_TO_NEW c cb w)"
  by (simp add: Iterate_def accessor_defs Let_def split: option.splits sum.splits prod.splits)

lemma iso_IterateTyped_oo:
  "IterateTyped OLD_TO_OLD (WithOldToNew a b c) tcb w = apfst (WithOldToNew a b) (IterateTyped OLD_TO_OLD c tcb w)"
  by (simp add: IterateTyped_def accessor_defs split: option.splits prod.splits)

lemma iso_IterateTyped_on:
  "IterateTyped OLD_TO_NEW (WithOldToOld a b c) tcb w = apfst (WithOldToOld a b) (IterateTyped OLD_TO_NEW c tcb w)"
  by (simp add: IterateTyped_def accessor_defs split: option.splits prod.splits)

lemma iso_accessors_oo:
  "GetSlotSet OLD_TO_OLD (WithOldToNew a b c) = GetSlotSet OLD_TO_OLD c"
  "GetTypedSlotSet OLD_TO_OLD (WithOldToNew a b c) = GetTypedSlotSet OLD_TO_OLD c"
  "AllocateSlotSet k OLD_TO_OLD (WithOldToNew a b c) = apfst (WithOldToNew a b) (AllocateSlotSet k OLD_TO_OLD c)"
  "AllocateTypedSlotSet OLD_TO_OLD (WithOldToNew a b c) = apfst (WithOldToNew a b) (AllocateTypedSlotSet OLD_TO_OLD c)"
  "ReleaseSlotSet OLD_TO_OLD (WithOldToNew a b c) = WithOldToNew a b (ReleaseSlotSet OLD_TO_OLD c)"
  "ReleaseTypedSlotSet OLD_TO_OLD (WithOldToNew a b c) = WithOldToNew a b (ReleaseTypedSlotSet OLD_TO_OLD c)"
  by (simp_all add: accessor_defs Let_def)

lemma iso_accessors_on:
  "GetSlotSet OLD_TO_NEW (WithOldToOld a b c) = GetSlotSet OLD_TO_NEW c"
  "GetTypedSlotSet OLD_TO_NEW (WithOldToOld a b c) = GetTypedSlotSet OLD_TO_NEW c"
  "AllocateSlotSet k OLD_TO_NEW (WithOldToOld a b c) = apfst (WithOldToOld a b) (AllocateSlotSet k OLD_TO_NEW c)"
  "AllocateTypedSlotSet OLD_TO_NEW (WithOldToOld a b c) = apfst (WithOldToOld a b) (AllocateTypedSlotSet OLD_TO_NEW c)"
  "ReleaseSlotSet OLD_TO_NEW (WithOldToOld a b c) = WithOldToOld a b (ReleaseSlotSet OLD_TO_NEW c)"
  "ReleaseTypedSlotSet OLD_TO_NEW (WithOldToOld a b c) = WithOldToOld a b (ReleaseTypedSlotSet OLD_TO_NEW c)"
  by (simp_all add: accessor_defs Let_def)

text \<open>
  Claim C9. Every operation of the old-to-old remembered set commutes with replacing the
  old-to-new slot table and typed slot table of the chunk by arbitrary ones: its result
  does not depend on them, and the chunk it returns holds them as they were. The same
  holds for every old-to-new operation and the old-to-old tables.
\<close>

theorem direction_isolation:
  "GetSlotSet OLD_TO_OLD (WithOldToNew a b c) = GetSlotSet OLD_TO_OLD c
   \<and> GetTypedSlotSet OLD_TO_OLD (WithOldToNew a b c) = GetTypedSlotSet OLD_TO_OLD c
   \<and> AllocateSlotSet k OLD_TO_OLD (WithOldToNew a b c) =
       apfst (WithOldToNew a b) (AllocateSlotSet k OLD_TO_OLD c)
   \<and> AllocateTypedSlotSet OLD_TO_OLD (WithOldToNew a b c) =
       apfst (WithOldToNew a b) (AllocateTypedSlotSet OLD_TO_OLD c)
   \<and> ReleaseSlotSet OLD_TO_OLD (WithOldToNew a b c) =
       WithOldToNew a b (ReleaseSlotSet OLD_TO_OLD c)
   \<and> ReleaseTypedSlotSet OLD_TO_OLD (WithOldToNew a b c) =
       WithOldToNew a b (ReleaseTypedSlotSet OLD_TO_OLD c)
   \<and> Insert k OLD_TO_OLD (WithOldToNew a b c) x =
       map_sum id (WithOldToNew a b) (Insert k OLD_TO_OLD c x)
   \<and> Remove k OLD_TO_OLD (WithOldToNew a b c) x =
       map_sum id (WithOldToNew a b) (Remove k OLD_TO_OLD c x)
   \<and> RemoveRange k OLD_TO_OLD (WithOldToNew a b c) s e =
       map_sum id (WithOldToNew a b) (RemoveRange k OLD_TO_OLD c s e)
   \<and> InsertTyped m OLD_TO_OLD (WithOldToNew a b c) h t x =
       map_sum id (WithOldToNew a b) (InsertTyped m OLD_TO_OLD c h t x)
   \<and> RemoveRangeTyped OLD_TO_OLD (WithOldToNew a b c) s e =
       WithOldToNew a b (RemoveRangeTyped OLD_TO_OLD c s e)
   \<and> Iterate k OLD_TO_OLD (WithOldToNew a b c) cb w =
       map_sum id (apfst (WithOldToNew a b)) (Iterate k OLD_TO_OLD c cb w)
   \<and> IterateTyped OLD_TO_OLD (WithOldToNew a b c) tcb w =
       apfst (WithOldToNew a b) (IterateTyped OLD_TO_OLD c tcb w)
   \<and> GetSlotSet OLD_TO_NEW (WithOldToOld a b c) = GetSlotSet OLD_TO_NEW c
   \<and> GetTypedSlotSet OLD_TO_NEW (WithOldToOld a b c) = GetTypedSlotSet OLD_TO_NEW c
   \<and> AllocateSlotSet k OLD_TO_NEW (WithOldToOld a b c) =
       apfst (WithOldToOld a b) (AllocateSlotSet k OLD_TO_NEW c)
   \<and> AllocateTypedSlotSet OLD_TO_NEW (WithOldToOld a b c) =
       apfst (WithOldToOld a b) (AllocateTypedSlotSet OLD_TO_NEW c)
   \<and> ReleaseSlotSet OLD_TO_NEW (WithOldToOld a b c) =
       WithOldToOld a b (ReleaseSlotSet OLD_TO_NEW c)
   \<and> ReleaseTypedSlotSet OLD_TO_NEW (WithOldToOld a b c) =
       WithOldToOld a b (ReleaseTypedSlotSet OLD_TO_NEW c)
   \<and> Insert k OLD_TO_NEW (WithOldToOld a b c) x =
       map_sum id (WithOldToOld a b) (Insert k OLD_TO_NEW c x)
   \<and> Remove k OLD_TO_NEW (WithOldToOld a b c) x =
       map_sum id (WithOldToOld a b) (Remove k OLD_TO_NEW c x)
   \<and> RemoveRange k OLD_TO_NEW (WithOldToOld a b c) s e =
       map_sum id (WithOldToOld a b) (RemoveRange k OLD_TO_NEW c s e)
   \<and> InsertTyped m OLD_TO_NEW (WithOldToOld a b c) h t x =
       map_sum id (WithOldToOld a b) (InsertTyped m OLD_TO_NEW c h t x)
   \<and> RemoveRangeTyped OLD_TO_NEW (WithOldToOld a b c) s e =
       WithOldToOld a b (RemoveRangeTyped OLD_TO_NEW c s e)
   \<and> Iterate k OLD_TO_NEW (WithOldToOld a b c) cb w =
       map_sum id (apfst (WithOldToOld a b)) (Iterate k OLD_TO_NEW c cb w)
   \<and> IterateTyped OLD_TO_NEW (WithOldToOld a b c) tcb w =
       apfst (WithOldToOld a b) (IterateTyped OLD_TO_NEW c tcb w)"
  by (intro conjI iso_accessors_oo iso_accessors_on iso_Insert_oo iso_Insert_on iso_Remove_oo
        iso_Remove_on iso_RemoveRange_oo iso_RemoveRange_on iso_InsertTyped_oo iso_InsertTyped_on
        iso_RemoveRangeTyped_oo iso_RemoveRangeTyped_on iso_Iterate_oo iso_Iterate_on
        iso_IterateTyped_oo iso_IterateTyped_on)

text \<open>
  An old-to-old \<open>Insert\<close> on the chunk whose old-to-new table records offset 20 does
  what it does on the chunk without tables, and the old-to-new table is still there.
\<close>

theorem direction_isolation_witness:
  "Insert 524288 OLD_TO_OLD example_chunk 1048584 =
     Inr (example_chunk\<lparr>old_to_old_slots :=
            Some [\<lparr>page_start = 1048576, offsets = [8]\<rparr>, \<lparr>page_start = 1572864, offsets = []\<rparr>]\<rparr>)
   \<and> Insert 524288 OLD_TO_OLD example_chunk_one_slot 1048584 =
     Inr (example_chunk_one_slot\<lparr>old_to_old_slots :=
            Some [\<lparr>page_start = 1048576, offsets = [8]\<rparr>, \<lparr>page_start = 1572864, offsets = []\<rparr>]\<rparr>)
   \<and> GetSlotSet OLD_TO_NEW example_chunk_one_slot =
       Some [\<lparr>page_start = 1048576, offsets = []\<rparr>, \<lparr>page_start = 1572864, offsets = [20]\<rparr>]"
proof -
  have upt2: "[0..<2] = [0, Suc 0]" by (simp add: upt_rec)
  have base: "Insert 524288 OLD_TO_OLD example_chunk 1048584 =
     Inr (example_chunk\<lparr>old_to_old_slots :=
            Some [\<lparr>page_start = 1048576, offsets = [8]\<rparr>, \<lparr>page_start = 1572864, offsets = []\<rparr>]\<rparr>)"
    by (simp add: Insert_def example_chunk_def Contains_def GetSlotSet_def AllocateSlotSet_def
          AllocateOldToOldSlots_def NewSlotSetArray_def upt2 StoreSlotSet_def SlotSet_Insert_def)
  note t = direction_isolation
    [where c = example_chunk and k = 524288 and x = 1048584 and b = None
       and a = "Some [\<lparr>page_start = 1048576, offsets = []\<rparr>, \<lparr>page_start = 1572864, offsets = [20]\<rparr>]"
       and s = 0 and e = 0 and m = 0 and h = 0 and t = OBJECT_SLOT
       and cb = example_keep_all and w = "()" and tcb = "\<lambda>slot_type host_addr slot_addr u. (KEEP_SLOT, u)"]
  have "Insert 524288 OLD_TO_OLD example_chunk_one_slot 1048584 =
          map_sum id
            (WithOldToNew
               (Some [\<lparr>page_start = 1048576, offsets = []\<rparr>, \<lparr>page_start = 1572864, offsets = [20]\<rparr>])
               None)
            (Insert 524288 OLD_TO_OLD example_chunk 1048584)"
    using t unfolding example_chunk_one_slot_def example_chunk_def by simp
  then have one: "Insert 524288 OLD_TO_OLD example_chunk_one_slot 1048584 =
     Inr (example_chunk_one_slot\<lparr>old_to_old_slots :=
            Some [\<lparr>page_start = 1048576, offsets = [8]\<rparr>, \<lparr>page_start = 1572864, offsets = []\<rparr>]\<rparr>)"
    unfolding base by (simp add: example_chunk_one_slot_def example_chunk_def)
  show ?thesis
    using base one
    by (simp add: example_chunk_one_slot_def example_chunk_def GetSlotSet_def)
qed

subsection \<open>The per-chunk Iterate\<close>

lemma IterateAllPages_spec_length:
  "IterateAllPages_spec ss callback w = (ss', m, w') \<Longrightarrow> length ss' = length ss"
  by (induction ss arbitrary: ss' m w w') (auto split: prod.splits)

lemma IteratePages_from:
  assumes "page \<le> length slots"
  shows "IteratePages slots (length slots) page callback new_count w =
           (case IterateAllPages_spec (drop page slots) callback w of
              (ss', m, w') \<Rightarrow> Inr (take page slots @ ss', new_count + m, w'))"
  using assms
proof (induction "length slots - page" arbitrary: slots page new_count w)
  case 0
  then show ?case by simp
next
  case (Suc d)
  then have lt: "page < length slots" by simp
  obtain n s' w1 where it: "SlotSet_Iterate (slots ! page) callback w = (n, s', w1)"
    by (cases "SlotSet_Iterate (slots ! page) callback w") auto
  let ?slots = "slots[page := s']"
  have len: "length ?slots = length slots" by simp
  have d: "d = length ?slots - Suc page" using Suc.hyps(2) by simp
  have le: "Suc page \<le> length ?slots" using lt by simp
  have ih: "IteratePages ?slots (length ?slots) (Suc page) callback (new_count + n) w1 =
           (case IterateAllPages_spec (drop (Suc page) ?slots) callback w1 of
              (ss', m, w') \<Rightarrow> Inr (take (Suc page) ?slots @ ss', (new_count + n) + m, w'))"
    by (rule Suc.hyps(1) [OF d le])
  have drop1: "drop (Suc page) ?slots = drop (Suc page) slots" by simp
  have take1: "take (Suc page) ?slots = take page slots @ [s']"
    using lt by (simp add: take_Suc_conv_app_nth)
  have dropc: "drop page slots = slots ! page # drop (Suc page) slots"
    using lt by (simp add: Cons_nth_drop_Suc)
  have step: "IteratePages slots (length slots) page callback new_count w =
          IteratePages ?slots (length slots) (Suc page) callback (new_count + n) w1"
    using lt it by (subst IteratePages.simps) simp
  show ?case
    unfolding step using ih
    by (simp only: len drop1 take1 dropc IterateAllPages_spec.simps it prod.case)
       (simp split: prod.splits)
qed

lemma IteratePages_all:
  "IteratePages slots (length slots) 0 callback 0 w =
     (case IterateAllPages_spec slots callback w of (ss', m, w') \<Rightarrow> Inr (ss', m, w'))"
  using IteratePages_from [of 0 slots callback 0 w] by simp

lemma SlotSet_IterateOffsets_keep_all:
  assumes "\<forall>a v. fst (callback a v) = KEEP_SLOT"
  shows "fst (SlotSet_IterateOffsets ps xs callback w) = xs"
proof (induction xs arbitrary: w)
  case Nil
  then show ?case by simp
next
  case (Cons x xs)
  obtain r w1 where c: "callback (ps + of_nat x) w = (r, w1)"
    by (cases "callback (ps + of_nat x) w") auto
  then have "r = KEEP_SLOT" using assms by (metis fst_conv)
  then show ?case using c Cons.IH [of w1] by (auto split: prod.splits)
qed

lemma SlotSet_Iterate_count:
  "SlotSet_Iterate s callback w = (n, s', w') \<Longrightarrow> n = int (length (offsets s'))"
  by (auto simp: SlotSet_Iterate_def split: prod.splits)

lemma SlotSet_Iterate_keep_all:
  assumes "\<forall>a v. fst (callback a v) = KEEP_SLOT"
      and "SlotSet_Iterate s callback w = (n, s', w')"
  shows "s' = s"
proof -
  have "fst (SlotSet_IterateOffsets (page_start s) (offsets s) callback w) = offsets s"
    using assms(1) by (rule SlotSet_IterateOffsets_keep_all)
  then show ?thesis
    using assms(2) by (auto simp: SlotSet_Iterate_def split: prod.splits)
qed

lemma IterateAllPages_spec_count:
  "IterateAllPages_spec ss callback w = (ss', m, w') \<Longrightarrow>
     m = (\<Sum>s\<leftarrow>ss'. int (length (offsets s)))"
proof (induction ss arbitrary: ss' m w w')
  case Nil
  then show ?case by simp
next
  case (Cons s ss)
  obtain n s1 w1 where a: "SlotSet_Iterate s callback w = (n, s1, w1)"
    by (cases "SlotSet_Iterate s callback w") auto
  obtain ss1 m1 w2 where b: "IterateAllPages_spec ss callback w1 = (ss1, m1, w2)"
    by (cases "IterateAllPages_spec ss callback w1") auto
  have "m1 = (\<Sum>s\<leftarrow>ss1. int (length (offsets s)))" by (rule Cons.IH [OF b])
  moreover have "n = int (length (offsets s1))" by (rule SlotSet_Iterate_count [OF a])
  ultimately show ?case using Cons.prems a b by auto
qed

lemma IterateAllPages_spec_keep_all:
  assumes "\<forall>a v. fst (callback a v) = KEEP_SLOT"
  shows "IterateAllPages_spec ss callback w = (ss', m, w') \<Longrightarrow> ss' = ss"
proof (induction ss arbitrary: ss' m w w')
  case Nil
  then show ?case by simp
next
  case (Cons s ss)
  obtain n s1 w1 where a: "SlotSet_Iterate s callback w = (n, s1, w1)"
    by (cases "SlotSet_Iterate s callback w") auto
  obtain ss1 m1 w2 where b: "IterateAllPages_spec ss callback w1 = (ss1, m1, w2)"
    by (cases "IterateAllPages_spec ss callback w1") auto
  have "ss1 = ss" by (rule Cons.IH [OF b])
  moreover have "s1 = s" by (rule SlotSet_Iterate_keep_all [OF assms a])
  ultimately show ?case using Cons.prems a b by simp
qed

lemma count_zero_iff:
  "(\<Sum>s\<leftarrow>ss. int (length (offsets s))) = 0 \<longleftrightarrow> (\<forall>s \<in> set ss. offsets s = [])"
proof (induction ss)
  case Nil
  then show ?case by simp
next
  case (Cons s ss)
  have nn: "0 \<le> (\<Sum>s\<leftarrow>ss. int (length (offsets s)))"
    by (rule sum_list_nonneg) auto
  show ?case using Cons.IH nn by auto
qed

lemma GetSlotSet_StoreSlotSet:
  "GetSlotSet direction (StoreSlotSet direction chunk s) = Some s"
  by (simp add: GetSlotSet_def StoreSlotSet_def)

lemma GetSlotSet_ReleaseSlotSet:
  "GetSlotSet direction (ReleaseSlotSet direction chunk) = None"
  by (simp add: GetSlotSet_def ReleaseSlotSet_def ReleaseOldToOldSlots_def ReleaseOldToNewSlots_def)

lemma Iterate_present:
  assumes "GetSlotSet direction chunk = Some slots"
      and "length slots = unat ((chunk_size chunk + kPageSize - 1) div kPageSize)"
      and "IterateAllPages_spec slots callback w = (slots', new_count, w')"
  shows "Iterate kPageSize direction chunk callback w =
           Inr (if new_count = 0 then ReleaseSlotSet direction chunk
                else StoreSlotSet direction chunk slots', w')"
proof -
  have "IteratePages slots (unat ((chunk_size chunk + kPageSize - 1) div kPageSize)) 0 callback 0 w
          = Inr (slots', new_count, w')"
    using IteratePages_all [of slots callback w] assms(2,3) by simp
  then show ?thesis using assms(1) by (simp add: Iterate_def Let_def)
qed

lemma TypedSlotSet_IterateEntries_keep_all:
  assumes "\<forall>t h a v. fst (callback t h a v) = KEEP_SLOT"
  shows "fst (TypedSlotSet_IterateEntries ps xs callback w) = xs"
proof (induction xs arbitrary: w)
  case Nil
  then show ?case by simp
next
  case (Cons x xs)
  obtain t h a where x: "x = (t, h, a)" by (cases x) auto
  obtain r w1 where c: "callback t (ps + ucast h) (ps + ucast a) w = (r, w1)"
    by (cases "callback t (ps + ucast h) (ps + ucast a) w") auto
  then have "r = KEEP_SLOT" using assms by (metis fst_conv)
  then show ?case using c x Cons.IH [of w1] by (auto split: prod.splits)
qed

lemma IterateTyped_present:
  assumes "GetTypedSlotSet direction chunk = Some slots"
      and "TypedSlotSet_IterateEntries (typed_page_start slots) (typed_entries slots) callback w = (ys, w')"
  shows "IterateTyped direction chunk callback w =
           (if ys = [] then ReleaseTypedSlotSet direction chunk
            else StoreTypedSlotSet direction chunk (slots\<lparr>typed_entries := ys\<rparr>), w')"
  using assms by (simp add: IterateTyped_def TypedSlotSet_Iterate_def)

text \<open>
  Claim C4, amended. For a chunk whose slot table is present, with one slot set per page
  unit, the per-chunk \<open>Iterate\<close> passes over the slot sets of all page units, its count
  is the number of slots retained in all of them, and it releases the table of the
  direction exactly when that count is zero; otherwise the table stays, holding the
  retained slots. When the policy keeps every slot, every entry is retained, and the table
  stays allocated exactly when it records at least one slot. \<open>IterateTyped\<close> does the
  same with the typed table.
\<close>

theorem Iterate_releases_when_drained:
  "(GetSlotSet direction chunk = Some slots
    \<and> length slots = unat ((chunk_size chunk + kPageSize - 1) div kPageSize) \<longrightarrow>
      (case IterateAllPages_spec slots callback w of
         (slots', new_count, w') \<Rightarrow>
           new_count = (\<Sum>s\<leftarrow>slots'. int (length (offsets s)))
         \<and> Iterate kPageSize direction chunk callback w =
             Inr (if new_count = 0 then ReleaseSlotSet direction chunk
                  else StoreSlotSet direction chunk slots', w')
         \<and> (GetSlotSet direction
               (if new_count = 0 then ReleaseSlotSet direction chunk
                else StoreSlotSet direction chunk slots') = None \<longleftrightarrow> new_count = 0)
         \<and> (new_count \<noteq> 0 \<longrightarrow>
               GetSlotSet direction (StoreSlotSet direction chunk slots') = Some slots')
         \<and> ((\<forall>a v. fst (callback a v) = KEEP_SLOT) \<longrightarrow>
               slots' = slots \<and> (new_count = 0 \<longleftrightarrow> (\<forall>s \<in> set slots. offsets s = [])))))
   \<and> (GetTypedSlotSet direction chunk = Some typed_slots \<longrightarrow>
      (case TypedSlotSet_IterateEntries (typed_page_start typed_slots) (typed_entries typed_slots)
              typed_callback v of
         (entries', v') \<Rightarrow>
           IterateTyped direction chunk typed_callback v =
             (if int (length entries') = 0 then ReleaseTypedSlotSet direction chunk
              else StoreTypedSlotSet direction chunk (typed_slots\<lparr>typed_entries := entries'\<rparr>), v')
         \<and> (GetTypedSlotSet direction
               (if int (length entries') = 0 then ReleaseTypedSlotSet direction chunk
                else StoreTypedSlotSet direction chunk (typed_slots\<lparr>typed_entries := entries'\<rparr>)) = None
             \<longleftrightarrow> int (length entries') = 0)
         \<and> ((\<forall>t h a u. fst (typed_callback t h a u) = KEEP_SLOT) \<longrightarrow>
               entries' = typed_entries typed_slots)))"
proof (intro conjI impI)
  assume h: "GetSlotSet direction chunk = Some slots
    \<and> length slots = unat ((chunk_size chunk + kPageSize - 1) div kPageSize)"
  obtain slots' new_count w' where r: "IterateAllPages_spec slots callback w = (slots', new_count, w')"
    by (cases "IterateAllPages_spec slots callback w") auto
  have c: "new_count = (\<Sum>s\<leftarrow>slots'. int (length (offsets s)))"
    by (rule IterateAllPages_spec_count [OF r])
  have i: "Iterate kPageSize direction chunk callback w =
             Inr (if new_count = 0 then ReleaseSlotSet direction chunk
                  else StoreSlotSet direction chunk slots', w')"
    using h r by (simp add: Iterate_present)
  have g: "GetSlotSet direction
               (if new_count = 0 then ReleaseSlotSet direction chunk
                else StoreSlotSet direction chunk slots') = None \<longleftrightarrow> new_count = 0"
    by (simp add: GetSlotSet_StoreSlotSet GetSlotSet_ReleaseSlotSet)
  have k: "(\<forall>a v. fst (callback a v) = KEEP_SLOT) \<longrightarrow>
               slots' = slots \<and> (new_count = 0 \<longleftrightarrow> (\<forall>s \<in> set slots. offsets s = []))"
  proof
    assume ka: "\<forall>a v. fst (callback a v) = KEEP_SLOT"
    have "slots' = slots" by (rule IterateAllPages_spec_keep_all [OF ka r])
    then show "slots' = slots \<and> (new_count = 0 \<longleftrightarrow> (\<forall>s \<in> set slots. offsets s = []))"
      using c count_zero_iff [of slots] by simp
  qed
  show "case IterateAllPages_spec slots callback w of
         (slots', new_count, w') \<Rightarrow>
           new_count = (\<Sum>s\<leftarrow>slots'. int (length (offsets s)))
         \<and> Iterate kPageSize direction chunk callback w =
             Inr (if new_count = 0 then ReleaseSlotSet direction chunk
                  else StoreSlotSet direction chunk slots', w')
         \<and> (GetSlotSet direction
               (if new_count = 0 then ReleaseSlotSet direction chunk
                else StoreSlotSet direction chunk slots') = None \<longleftrightarrow> new_count = 0)
         \<and> (new_count \<noteq> 0 \<longrightarrow>
               GetSlotSet direction (StoreSlotSet direction chunk slots') = Some slots')
         \<and> ((\<forall>a v. fst (callback a v) = KEEP_SLOT) \<longrightarrow>
               slots' = slots \<and> (new_count = 0 \<longleftrightarrow> (\<forall>s \<in> set slots. offsets s = [])))"
    unfolding r prod.case using c i g k GetSlotSet_StoreSlotSet [of direction chunk slots'] by blast
next
  assume h: "GetTypedSlotSet direction chunk = Some typed_slots"
  obtain entries' v' where r:
    "TypedSlotSet_IterateEntries (typed_page_start typed_slots) (typed_entries typed_slots)
       typed_callback v = (entries', v')"
    by (cases "TypedSlotSet_IterateEntries (typed_page_start typed_slots)
                 (typed_entries typed_slots) typed_callback v") auto
  have i: "IterateTyped direction chunk typed_callback v =
             (if int (length entries') = 0 then ReleaseTypedSlotSet direction chunk
              else StoreTypedSlotSet direction chunk (typed_slots\<lparr>typed_entries := entries'\<rparr>), v')"
    using IterateTyped_present [OF h r] by simp
  have g: "GetTypedSlotSet direction
               (if int (length entries') = 0 then ReleaseTypedSlotSet direction chunk
                else StoreTypedSlotSet direction chunk (typed_slots\<lparr>typed_entries := entries'\<rparr>)) = None
             \<longleftrightarrow> int (length entries') = 0"
    by (simp add: GetTypedSlotSet_StoreTypedSlotSet GetTypedSlotSet_ReleaseTypedSlotSet)
  have k: "(\<forall>t h a u. fst (typed_callback t h a u) = KEEP_SLOT) \<longrightarrow>
               entries' = typed_entries typed_slots"
    using TypedSlotSet_IterateEntries_keep_all
            [of typed_callback "typed_page_start typed_slots" "typed_entries typed_slots" v] r
    by simp
  show "case TypedSlotSet_IterateEntries (typed_page_start typed_slots) (typed_entries typed_slots)
              typed_callback v of
         (entries', v') \<Rightarrow>
           IterateTyped direction chunk typed_callback v =
             (if int (length entries') = 0 then ReleaseTypedSlotSet direction chunk
              else StoreTypedSlotSet direction chunk (typed_slots\<lparr>typed_entries := entries'\<rparr>), v')
         \<and> (GetTypedSlotSet direction
               (if int (length entries') = 0 then ReleaseTypedSlotSet direction chunk
                else StoreTypedSlotSet direction chunk (typed_slots\<lparr>typed_entries := entries'\<rparr>)) = None
             \<longleftrightarrow> int (length entries') = 0)
         \<and> ((\<forall>t h a u. fst (typed_callback t h a u) = KEEP_SLOT) \<longrightarrow>
               entries' = typed_entries typed_slots)"
    unfolding r prod.case using i g k by blast
qed

lemma upt_two: "[0..<2] = [0, Suc 0]"
  by (simp add: upt_rec)

lemma example_NewSlotSetArray:
  "NewSlotSetArray 524288 1048576 1048576 =
     [\<lparr>page_start = 1048576, offsets = []\<rparr>, \<lparr>page_start = 1572864, offsets = []\<rparr>]"
  by (simp add: NewSlotSetArray_def upt_two)

lemma example_Insert:
  "Insert 524288 OLD_TO_NEW example_chunk 1572884 = Inr example_chunk_one_slot"
  by (simp add: Insert_def example_chunk_def example_chunk_one_slot_def Contains_def
        GetSlotSet_def AllocateSlotSet_def AllocateOldToNewSlots_def example_NewSlotSetArray
        StoreSlotSet_def SlotSet_Insert_def)

lemma example_Remove:
  "Remove 524288 OLD_TO_NEW example_chunk_one_slot 1572884 = Inr example_chunk_empty_table"
  by (simp add: Remove_def example_chunk_def example_chunk_one_slot_def
        example_chunk_empty_table_def Contains_def GetSlotSet_def StoreSlotSet_def
        SlotSet_Remove_def)

lemma IteratePages_unfold_2:
  "IteratePages [s0, s1] 2 0 callback 0 w =
     (case SlotSet_Iterate s0 callback w of
        (n, s0', w1) \<Rightarrow>
          (case SlotSet_Iterate s1 callback w1 of
             (m, s1', w2) \<Rightarrow> Inr ([s0', s1'], n + m, w2)))"
  using IteratePages_all [of "[s0, s1]" callback w]
  by (simp split: prod.splits)

text \<open>
  Claim C4 as stated fails on a table that is allocated and records nothing, the state
  that \<open>Insert\<close> followed by \<open>Remove\<close> of the same slot leaves: the policy keeps
  every slot, the count is zero, and \<open>Iterate\<close> releases the table.
\<close>

theorem Iterate_keep_all_counterexample:
  "Insert 524288 OLD_TO_NEW example_chunk 1572884 = Inr example_chunk_one_slot
   \<and> Remove 524288 OLD_TO_NEW example_chunk_one_slot 1572884 = Inr example_chunk_empty_table
   \<and> GetSlotSet OLD_TO_NEW example_chunk_empty_table =
       Some [\<lparr>page_start = 1048576, offsets = []\<rparr>, \<lparr>page_start = 1572864, offsets = []\<rparr>]
   \<and> Iterate 524288 OLD_TO_NEW example_chunk_empty_table example_keep_all () =
       Inr (example_chunk, ())
   \<and> GetSlotSet OLD_TO_NEW example_chunk = None"
proof -
  have "Iterate 524288 OLD_TO_NEW example_chunk_empty_table example_keep_all () =
       Inr (example_chunk, ())"
    by (simp add: Iterate_def example_chunk_empty_table_def example_chunk_def GetSlotSet_def
          IteratePages_unfold_2 SlotSet_Iterate_def ReleaseSlotSet_def ReleaseOldToNewSlots_def)
  then show ?thesis
    using example_Insert example_Remove
    by (simp add: example_chunk_empty_table_def example_chunk_def GetSlotSet_def)
qed

text \<open>
  On the chunk that records one slot: keeping it leaves the chunk as it was, removing it
  releases the table after one call of the policy; removing both typed entries releases
  the typed table after two calls.
\<close>

theorem Iterate_releases_when_drained_witness:
  "Iterate 524288 OLD_TO_NEW example_chunk_one_slot example_keep_all () =
     Inr (example_chunk_one_slot, ())
   \<and> Iterate 524288 OLD_TO_NEW example_chunk_one_slot example_remove_all 0 =
     Inr (example_chunk, 1)
   \<and> IterateTyped OLD_TO_OLD example_typed_chunk example_typed_remove_all 0 = (example_chunk, 2)"
proof -
  let ?slots = "[\<lparr>page_start = 1048576, offsets = []\<rparr>, \<lparr>page_start = 1572864, offsets = [20]\<rparr>]"
  let ?typed = "\<lparr>typed_page_start = 1048576,
             typed_entries = [(CODE_TARGET_SLOT, 0 :: 32 word, 40 :: 32 word), (EMBEDDED_OBJECT_SLOT, 32, 48)]\<rparr>"
  have h: "GetSlotSet OLD_TO_NEW example_chunk_one_slot = Some ?slots
    \<and> length ?slots = unat ((chunk_size example_chunk_one_slot + 524288 - 1) div 524288)"
    by (simp add: example_chunk_one_slot_def example_chunk_def GetSlotSet_def)
  have ht: "GetTypedSlotSet OLD_TO_OLD example_typed_chunk = Some ?typed"
    by (simp add: example_typed_chunk_def example_chunk_def GetTypedSlotSet_def)
  note t1 = Iterate_releases_when_drained
    [where direction = OLD_TO_NEW and chunk = example_chunk_one_slot and slots = ?slots
       and kPageSize = 524288 and callback = example_keep_all and w = "()",
     THEN conjunct1, THEN mp, OF h]
  note t2 = Iterate_releases_when_drained
    [where direction = OLD_TO_NEW and chunk = example_chunk_one_slot and slots = ?slots
       and kPageSize = 524288 and callback = example_remove_all and w = 0,
     THEN conjunct1, THEN mp, OF h]
  note t3 = Iterate_releases_when_drained
    [where direction = OLD_TO_OLD and chunk = example_typed_chunk and typed_slots = ?typed
       and typed_callback = example_typed_remove_all and v = 0,
     THEN conjunct2, THEN mp, OF ht]
  have a: "Iterate 524288 OLD_TO_NEW example_chunk_one_slot example_keep_all () =
     Inr (example_chunk_one_slot, ())"
    using t1
    by (simp add: SlotSet_Iterate_def example_keep_all_def StoreSlotSet_def
          example_chunk_one_slot_def example_chunk_def)
  have b: "Iterate 524288 OLD_TO_NEW example_chunk_one_slot example_remove_all 0 =
     Inr (example_chunk, 1)"
    using t2
    by (simp add: SlotSet_Iterate_def example_remove_all_def ReleaseSlotSet_def
          ReleaseOldToNewSlots_def example_chunk_one_slot_def example_chunk_def)
  have c: "IterateTyped OLD_TO_OLD example_typed_chunk example_typed_remove_all 0 = (example_chunk, 2)"
    using t3
    by (simp add: example_typed_remove_all_def ReleaseTypedSlotSet_def
          ReleaseTypedOldToOldSlots_def example_typed_chunk_def example_chunk_def)
  show ?thesis using a b c by simp
qed

subsection \<open>The heap-wide iteration\<close>

lemma IterateMemoryChunks_logged:
  "IterateMemoryChunks direction heap callback w = Inr (heap', w') \<Longrightarrow>
     IterateMemoryChunks direction heap (LoggedCallback callback) (w, log) =
       Inr (heap', (w', log @ filter (\<lambda>chunk. GetSlotSet direction chunk \<noteq> None
                                          \<or> GetTypedSlotSet direction chunk \<noteq> None) heap))"
proof (induction heap arbitrary: w log heap' w')
  case Nil
  then show ?case by simp
next
  case (Cons chunk rest)
  show ?case
  proof (cases "GetSlotSet direction chunk \<noteq> None \<or> GetTypedSlotSet direction chunk \<noteq> None")
    case True
    from Cons.prems True obtain chunk1 w1 where c: "callback chunk w = Inr (chunk1, w1)"
      by (auto simp: Let_def split: sum.splits)
    from Cons.prems True c obtain rest1 where
      r: "IterateMemoryChunks direction rest callback w1 = Inr (rest1, w')" and h: "heap' = chunk1 # rest1"
      by (auto simp: Let_def split: sum.splits)
    have "IterateMemoryChunks direction rest (LoggedCallback callback) (w1, log @ [chunk]) =
       Inr (rest1, (w', (log @ [chunk]) @ filter (\<lambda>chunk. GetSlotSet direction chunk \<noteq> None
                                          \<or> GetTypedSlotSet direction chunk \<noteq> None) rest))"
      by (rule Cons.IH [OF r])
    then show ?thesis using True c h by (simp add: Let_def)
  next
    case False
    from Cons.prems False obtain rest1 where
      r: "IterateMemoryChunks direction rest callback w = Inr (rest1, w')" and h: "heap' = chunk # rest1"
      by (auto simp: Let_def split: sum.splits)
    have "IterateMemoryChunks direction rest (LoggedCallback callback) (w, log) =
       Inr (rest1, (w', log @ filter (\<lambda>chunk. GetSlotSet direction chunk \<noteq> None
                                          \<or> GetTypedSlotSet direction chunk \<noteq> None) rest))"
      by (rule Cons.IH [OF r])
    then show ?thesis using False h by (simp add: Let_def)
  qed
qed

lemma IterateMemoryChunks_total:
  assumes "\<forall>chunk \<in> set heap. \<forall>w. \<exists>r. callback chunk w = Inr r"
  shows "\<exists>r. IterateMemoryChunks direction heap callback w = Inr r"
  using assms
proof (induction heap arbitrary: w)
  case Nil
  then show ?case by simp
next
  case (Cons chunk rest)
  have ih: "\<And>w. \<exists>r. IterateMemoryChunks direction rest callback w = Inr r"
    using Cons by simp
  show ?case
  proof (cases "GetSlotSet direction chunk \<noteq> None \<or> GetTypedSlotSet direction chunk \<noteq> None")
    case True
    obtain chunk1 w1 where c: "callback chunk w = Inr (chunk1, w1)"
      using Cons.prems by (metis list.set_intros(1) surj_pair)
    obtain r where "IterateMemoryChunks direction rest callback w1 = Inr r" using ih by blast
    then show ?thesis using True c by (cases r) (simp add: Let_def)
  next
    case False
    obtain r where "IterateMemoryChunks direction rest callback w = Inr r" using ih by blast
    then show ?thesis using False by (cases r) (simp add: Let_def)
  qed
qed

lemma Iterate_total:
  assumes "\<forall>slots. GetSlotSet direction chunk = Some slots \<longrightarrow>
             length slots = unat ((chunk_size chunk + kPageSize - 1) div kPageSize)"
  shows "\<exists>r. Iterate kPageSize direction chunk callback w = Inr r"
proof (cases "GetSlotSet direction chunk")
  case None
  then show ?thesis by (simp add: Iterate_def)
next
  case (Some slots)
  obtain slots' new_count w' where r: "IterateAllPages_spec slots callback w = (slots', new_count, w')"
    by (cases "IterateAllPages_spec slots callback w") auto
  show ?thesis using Iterate_present [OF Some _ r] assms Some by simp
qed

lemma IterateMemoryChunks_observer:
  "IterateMemoryChunks direction heap (\<lambda>chunk log. Inr (chunk, log @ [chunk])) log =
     Inr (heap, log @ filter (\<lambda>chunk. GetSlotSet direction chunk \<noteq> None
                                   \<or> GetTypedSlotSet direction chunk \<noteq> None) heap)"
  by (induction heap arbitrary: log) (simp_all add: Let_def)

text \<open>
  Claim C7, amended. \<open>IterateMemoryChunks\<close> calls its callback exactly on the chunks
  whose slot table or typed slot table of the direction is present (not \<open>nullptr\<close>),
  in the order of the heap, whether or not the table records anything: the log of the
  instrumented callback is the list of those chunks. This holds for every callback, so for
  the heap-wide \<open>Iterate\<close> and \<open>IterateTyped\<close>, which pass the per-chunk functions.
  The heap-wide \<open>IterateTyped\<close> always returns, the heap-wide \<open>Iterate\<close> when every
  present slot table has one slot set per page unit.
\<close>

theorem IterateMemoryChunks_visits_present_tables:
  "IterateMemoryChunks direction heap (\<lambda>chunk log. Inr (chunk, log @ [chunk])) [] =
     Inr (heap, filter (\<lambda>chunk. GetSlotSet direction chunk \<noteq> None
                              \<or> GetTypedSlotSet direction chunk \<noteq> None) heap)
   \<and> (IterateMemoryChunks direction heap callback w = Inr (heap', w') \<longrightarrow>
        IterateMemoryChunks direction heap (LoggedCallback callback) (w, []) =
          Inr (heap', (w', filter (\<lambda>chunk. GetSlotSet direction chunk \<noteq> None
                                        \<or> GetTypedSlotSet direction chunk \<noteq> None) heap)))
   \<and> (IterateHeap kPageSize direction heap slot_callback w = Inr (heap', w') \<longrightarrow>
        IterateMemoryChunks direction heap
          (LoggedCallback (\<lambda>chunk. Iterate kPageSize direction chunk slot_callback)) (w, []) =
          Inr (heap', (w', filter (\<lambda>chunk. GetSlotSet direction chunk \<noteq> None
                                        \<or> GetTypedSlotSet direction chunk \<noteq> None) heap)))
   \<and> (IterateTypedHeap direction heap typed_callback w = Inr (heap', w') \<longrightarrow>
        IterateMemoryChunks direction heap
          (LoggedCallback (\<lambda>chunk w0. Inr (IterateTyped direction chunk typed_callback w0))) (w, []) =
          Inr (heap', (w', filter (\<lambda>chunk. GetSlotSet direction chunk \<noteq> None
                                        \<or> GetTypedSlotSet direction chunk \<noteq> None) heap)))
   \<and> (\<exists>r. IterateTypedHeap direction heap typed_callback w = Inr r)
   \<and> ((\<forall>chunk \<in> set heap. \<forall>slots. GetSlotSet direction chunk = Some slots \<longrightarrow>
          length slots = unat ((chunk_size chunk + kPageSize - 1) div kPageSize)) \<longrightarrow>
        (\<exists>r. IterateHeap kPageSize direction heap slot_callback w = Inr r))"
proof (intro conjI impI)
  show "IterateMemoryChunks direction heap (\<lambda>chunk log. Inr (chunk, log @ [chunk])) [] =
     Inr (heap, filter (\<lambda>chunk. GetSlotSet direction chunk \<noteq> None
                              \<or> GetTypedSlotSet direction chunk \<noteq> None) heap)"
    using IterateMemoryChunks_observer [of direction heap "[]"] by simp
next
  assume "IterateMemoryChunks direction heap callback w = Inr (heap', w')"
  then show "IterateMemoryChunks direction heap (LoggedCallback callback) (w, []) =
          Inr (heap', (w', filter (\<lambda>chunk. GetSlotSet direction chunk \<noteq> None
                                        \<or> GetTypedSlotSet direction chunk \<noteq> None) heap))"
    using IterateMemoryChunks_logged [of direction heap callback w heap' w' "[]"] by simp
next
  assume "IterateHeap kPageSize direction heap slot_callback w = Inr (heap', w')"
  then have "IterateMemoryChunks direction heap
               (\<lambda>chunk. Iterate kPageSize direction chunk slot_callback) w = Inr (heap', w')"
    by (simp add: IterateHeap_def)
  then show "IterateMemoryChunks direction heap
          (LoggedCallback (\<lambda>chunk. Iterate kPageSize direction chunk slot_callback)) (w, []) =
          Inr (heap', (w', filter (\<lambda>chunk. GetSlotSet direction chunk \<noteq> None
                                        \<or> GetTypedSlotSet direction chunk \<noteq> None) heap))"
    using IterateMemoryChunks_logged
            [of direction heap "\<lambda>chunk. Iterate kPageSize direction chunk slot_callback" w heap' w' "[]"]
    by simp
next
  assume "IterateTypedHeap direction heap typed_callback w = Inr (heap', w')"
  then have "IterateMemoryChunks direction heap
               (\<lambda>chunk w0. Inr (IterateTyped direction chunk typed_callback w0)) w = Inr (heap', w')"
    by (simp add: IterateTypedHeap_def)
  then show "IterateMemoryChunks direction heap
          (LoggedCallback (\<lambda>chunk w0. Inr (IterateTyped direction chunk typed_callback w0))) (w, []) =
          Inr (heap', (w', filter (\<lambda>chunk. GetSlotSet direction chunk \<noteq> None
                                        \<or> GetTypedSlotSet direction chunk \<noteq> None) heap))"
    using IterateMemoryChunks_logged
            [of direction heap "\<lambda>chunk w0. Inr (IterateTyped direction chunk typed_callback w0)"
                w heap' w' "[]"]
    by simp
next
  show "\<exists>r. IterateTypedHeap direction heap typed_callback w = Inr r"
    unfolding IterateTypedHeap_def by (rule IterateMemoryChunks_total) simp
next
  assume wf: "\<forall>chunk \<in> set heap. \<forall>slots. GetSlotSet direction chunk = Some slots \<longrightarrow>
          length slots = unat ((chunk_size chunk + kPageSize - 1) div kPageSize)"
  show "\<exists>r. IterateHeap kPageSize direction heap slot_callback w = Inr r"
    unfolding IterateHeap_def
  proof (rule IterateMemoryChunks_total, intro ballI allI)
    fix chunk w0 assume "chunk \<in> set heap"
    then show "\<exists>r. Iterate kPageSize direction chunk slot_callback w0 = Inr r"
      using wf by (intro Iterate_total) blast
  qed
qed

lemma example_Iterate_remove_all:
  "Iterate 524288 OLD_TO_NEW example_chunk_one_slot example_remove_all n = Inr (example_chunk, n + 1)"
  by (simp add: Iterate_def example_chunk_one_slot_def example_chunk_def GetSlotSet_def
        IteratePages_unfold_2 SlotSet_Iterate_def example_remove_all_def ReleaseSlotSet_def
        ReleaseOldToNewSlots_def)

lemma example_IterateHeap:
  "IterateHeap 524288 OLD_TO_NEW [example_chunk, example_chunk_one_slot] example_remove_all 0 =
     Inr ([example_chunk, example_chunk], 1)"
proof -
  have a: "GetSlotSet OLD_TO_NEW example_chunk = None" "GetTypedSlotSet OLD_TO_NEW example_chunk = None"
    by (simp_all add: example_chunk_def GetSlotSet_def GetTypedSlotSet_def)
  have b: "GetSlotSet OLD_TO_NEW example_chunk_one_slot \<noteq> None"
    by (simp add: example_chunk_one_slot_def example_chunk_def GetSlotSet_def)
  show ?thesis
    using a b by (simp add: IterateHeap_def Let_def example_Iterate_remove_all)
qed

text \<open>
  On the heap of the chunk without tables and the chunk that records one slot, the
  callback is called on the second chunk only.
\<close>

theorem IterateMemoryChunks_visits_present_tables_witness:
  "IterateMemoryChunks OLD_TO_NEW [example_chunk, example_chunk_one_slot]
     (\<lambda>chunk log. Inr (chunk, log @ [chunk])) [] =
     Inr ([example_chunk, example_chunk_one_slot], [example_chunk_one_slot])
   \<and> IterateHeap 524288 OLD_TO_NEW [example_chunk, example_chunk_one_slot] example_remove_all 0 =
     Inr ([example_chunk, example_chunk], 1)
   \<and> IterateMemoryChunks OLD_TO_NEW [example_chunk, example_chunk_one_slot]
       (LoggedCallback (\<lambda>chunk. Iterate 524288 OLD_TO_NEW chunk example_remove_all)) (0, []) =
     Inr ([example_chunk, example_chunk], (1, [example_chunk_one_slot]))"
proof -
  have a: "GetSlotSet OLD_TO_NEW example_chunk = None" "GetTypedSlotSet OLD_TO_NEW example_chunk = None"
    by (simp_all add: example_chunk_def GetSlotSet_def GetTypedSlotSet_def)
  have b: "GetSlotSet OLD_TO_NEW example_chunk_one_slot \<noteq> None"
    by (simp add: example_chunk_one_slot_def example_chunk_def GetSlotSet_def)
  note t = IterateMemoryChunks_visits_present_tables
    [where direction = OLD_TO_NEW and heap = "[example_chunk, example_chunk_one_slot]"
       and kPageSize = 524288 and slot_callback = example_remove_all and w = 0
       and heap' = "[example_chunk, example_chunk]" and w' = 1
       and callback = "\<lambda>chunk. Iterate 524288 OLD_TO_NEW chunk example_remove_all"
       and typed_callback = "\<lambda>slot_type host_addr slot_addr n. (KEEP_SLOT, n)"]
  have c1: "IterateMemoryChunks OLD_TO_NEW [example_chunk, example_chunk_one_slot]
     (\<lambda>chunk log. Inr (chunk, log @ [chunk])) [] =
     Inr ([example_chunk, example_chunk_one_slot], [example_chunk_one_slot])"
    using t [THEN conjunct1] a b by simp
  have c3: "IterateMemoryChunks OLD_TO_NEW [example_chunk, example_chunk_one_slot]
       (LoggedCallback (\<lambda>chunk. Iterate 524288 OLD_TO_NEW chunk example_remove_all)) (0, []) =
     Inr ([example_chunk, example_chunk], (1, [example_chunk_one_slot]))"
    using t [THEN conjunct2, THEN conjunct2, THEN conjunct1, THEN mp, OF example_IterateHeap] a b
    by simp
  show ?thesis using c1 c3 example_IterateHeap by simp
qed

text \<open>
  Claim C7 as stated fails on a chunk whose slot table is present and empty: the callback
  is called on it.
\<close>

theorem IterateMemoryChunks_empty_table_counterexample:
  "Insert 524288 OLD_TO_NEW example_chunk 1572884 = Inr example_chunk_one_slot
   \<and> Remove 524288 OLD_TO_NEW example_chunk_one_slot 1572884 = Inr example_chunk_empty_table
   \<and> GetSlotSet OLD_TO_NEW example_chunk_empty_table =
       Some [\<lparr>page_start = 1048576, offsets = []\<rparr>, \<lparr>page_start = 1572864, offsets = []\<rparr>]
   \<and> GetTypedSlotSet OLD_TO_NEW example_chunk_empty_table = None
   \<and> IterateMemoryChunks OLD_TO_NEW [example_chunk_empty_table] example_log_chunk [] =
       Inr ([example_chunk_empty_table], [1048576])"
  using example_Insert example_Remove
  by (simp add: example_chunk_empty_table_def example_chunk_def GetSlotSet_def
        GetTypedSlotSet_def example_log_chunk_def Let_def)

subsection \<open>RemoveRange\<close>

lemma unat_ucast_32:
  fixes x :: "64 word"
  assumes "unat x < 2 ^ 32"
  shows "unat (ucast x :: 32 word) = unat x"
  using assms by (simp add: unsigned_ucast_eq take_bit_nat_eq_self)

text \<open>
  Claim C1, amended. When the slot table is present and the range lies in the first page
  unit (\<open>start_offset < end_offset\<close> and \<open>end_offset \<le> Page::kPageSize\<close>, the two
  \<open>DCHECK\<close>s), \<open>RemoveRange\<close> removes from the slot set of the first page unit exactly
  the recorded offsets \<open>o\<close> with \<open>start_offset \<le> o < end_offset\<close>; the other offsets,
  the slot sets of the other page units and the rest of the chunk are unchanged. A range
  that ends beyond the first page unit fails the second \<open>DCHECK\<close>. The page size is an
  \<open>int\<close> constant, so it is below \<open>2^32\<close> and the casts to \<open>uint32_t\<close> lose nothing.
\<close>

theorem RemoveRange_first_page_unit:
  "(GetSlotSet direction page = Some (s0 # rest)
    \<and> start - address page < end - address page
    \<and> end - address page \<le> kPageSize
    \<and> unat kPageSize < 2 ^ 32 \<longrightarrow>
      RemoveRange kPageSize direction page start end =
        Inr (StoreSlotSet direction page
               (s0\<lparr>offsets :=
                    filter (\<lambda>x. \<not> (unat (start - address page) \<le> x
                                  \<and> x < unat (end - address page)))
                      (offsets s0)\<rparr> # rest)))
   \<and> (GetSlotSet direction page = Some slots
      \<and> \<not> end - address page \<le> kPageSize \<longrightarrow>
      RemoveRange kPageSize direction page start end = Inl DcheckFailed)"
proof (intro conjI impI)
  assume h: "GetSlotSet direction page = Some (s0 # rest)
    \<and> start - address page < end - address page
    \<and> end - address page \<le> kPageSize
    \<and> unat kPageSize < 2 ^ 32"
  then have e: "unat (end - address page) < 2 ^ 32"
    by (meson le_less_trans word_le_nat_alt)
  moreover have "unat (start - address page) < unat (end - address page)"
    using h by (simp add: word_less_nat_alt)
  ultimately have s: "unat (start - address page) < 2 ^ 32" by simp
  show "RemoveRange kPageSize direction page start end =
        Inr (StoreSlotSet direction page
               (s0\<lparr>offsets :=
                    filter (\<lambda>x. \<not> (unat (start - address page) \<le> x
                                  \<and> x < unat (end - address page)))
                      (offsets s0)\<rparr> # rest))"
    using h by (simp add: RemoveRange_def Let_def SlotSet_RemoveRange_def
                  unat_ucast_32 [OF e] unat_ucast_32 [OF s])
next
  assume "GetSlotSet direction page = Some slots \<and> \<not> end - address page \<le> kPageSize"
  then show "RemoveRange kPageSize direction page start end = Inl DcheckFailed"
    by (simp add: RemoveRange_def Let_def)
qed

text \<open>
  Removing the range of offsets 8 to 32 drops offset 16 of the first page unit and keeps
  offset 64 and the second page unit; a range inside the second page unit is rejected.
\<close>

theorem RemoveRange_first_page_unit_witness:
  "RemoveRange 524288 OLD_TO_NEW example_chunk_three_slots 1048584 1048608 =
     Inr (example_chunk\<lparr>old_to_new_slots :=
            Some [\<lparr>page_start = 1048576, offsets = [64]\<rparr>, \<lparr>page_start = 1572864, offsets = [20]\<rparr>]\<rparr>)
   \<and> RemoveRange 524288 OLD_TO_NEW example_chunk_three_slots 1572872 1572896 = Inl DcheckFailed"
proof -
  have h: "GetSlotSet OLD_TO_NEW example_chunk_three_slots =
             Some (\<lparr>page_start = 1048576, offsets = [16, 64]\<rparr> # [\<lparr>page_start = 1572864, offsets = [20]\<rparr>])
    \<and> 1048584 - address example_chunk_three_slots < 1048608 - address example_chunk_three_slots
    \<and> 1048608 - address example_chunk_three_slots \<le> 524288
    \<and> unat (524288 :: 64 word) < 2 ^ 32"
    by (simp add: example_chunk_three_slots_def example_chunk_def GetSlotSet_def)
  have g: "GetSlotSet OLD_TO_NEW example_chunk_three_slots =
             Some [\<lparr>page_start = 1048576, offsets = [16, 64]\<rparr>, \<lparr>page_start = 1572864, offsets = [20]\<rparr>]
    \<and> \<not> 1572896 - address example_chunk_three_slots \<le> 524288"
    by (simp add: example_chunk_three_slots_def example_chunk_def GetSlotSet_def)
  have a: "RemoveRange 524288 OLD_TO_NEW example_chunk_three_slots 1048584 1048608 =
     Inr (example_chunk\<lparr>old_to_new_slots :=
            Some [\<lparr>page_start = 1048576, offsets = [64]\<rparr>, \<lparr>page_start = 1572864, offsets = [20]\<rparr>]\<rparr>)"
    using RemoveRange_first_page_unit [THEN conjunct1, THEN mp, OF h]
    by (simp add: example_chunk_three_slots_def example_chunk_def StoreSlotSet_def)
  have b: "RemoveRange 524288 OLD_TO_NEW example_chunk_three_slots 1572872 1572896 = Inl DcheckFailed"
    using RemoveRange_first_page_unit
            [where start = 1572872, THEN conjunct2, THEN mp, OF g] .
  show ?thesis using a b by simp
qed

text \<open>
  Claim C1 as stated fails for a range in the second page unit of a chunk of two page
  units: both ends lie within the chunk and offset 20 of the second page unit, recorded by
  \<open>Insert\<close>, lies in the range, but \<open>RemoveRange\<close> fails its \<open>DCHECK\<close> and removes
  nothing; so does a range that starts in the first page unit and ends in the second.
\<close>

theorem RemoveRange_second_page_unit_counterexample:
  "Insert 524288 OLD_TO_NEW example_chunk 1572884 = Inr example_chunk_one_slot
   \<and> GetSlotSet OLD_TO_NEW example_chunk_one_slot =
       Some [\<lparr>page_start = 1048576, offsets = []\<rparr>, \<lparr>page_start = 1572864, offsets = [20]\<rparr>]
   \<and> Contains example_chunk_one_slot 1572872
   \<and> Contains example_chunk_one_slot 1572896
   \<and> (1572872 :: Address) \<le> 1572884 \<and> (1572884 :: Address) < 1572896
   \<and> RemoveRange 524288 OLD_TO_NEW example_chunk_one_slot 1572872 1572896 = Inl DcheckFailed
   \<and> RemoveRange 524288 OLD_TO_NEW example_chunk_one_slot 1048584 1572896 = Inl DcheckFailed"
  using example_Insert
  by (simp add: example_chunk_one_slot_def example_chunk_def GetSlotSet_def Contains_def
        RemoveRange_def Let_def)

end
